theory Spec2Isabelle
  imports Complex_Main "HOL-Library.Multiset" "HOL-Library.Sublist"
begin

section \<open>Values exchanged between the notebooks and the framework\<close>

text \<open>
  The two tutorial notebooks (\<^verbatim>\<open>examples/bindingdb_deepdta/tutorial.ipynb\<close> and
  \<^verbatim>\<open>examples/digits_dann_lightn/tutorial.ipynb\<close>) are straight-line scripts over an
  external framework. An exception is a value; \<open>FrameworkError\<close> carries whatever an
  external call raised, \<open>AttributeError\<close> is what a lookup of a missing configuration
  key or of \<^verbatim>\<open>.upper\<close> on a non-string raises, \<open>NameError\<close> a read of an unbound name.
\<close>

datatype exn = FrameworkError string | AttributeError string | NameError string

text \<open>A configuration value is a YAML scalar.\<close>

datatype cval = CInt int | CStr string | CFloat real | CBool bool

text \<open>
  \<^verbatim>\<open>cfg.SECTION.KEY\<close>: a key of the hierarchical configuration is a section and a name.
\<close>

type_synonym ckey = "string \<times> string"
type_synonym centries = "(ckey \<times> cval) list"

record cfgnode =
  entries :: centries
  frozen :: bool

text \<open>
  \<^verbatim>\<open>torch.utils.data.Subset(dataset, indices)\<close> keeps the dataset and the index list;
  element \<open>i\<close> of it is \<^verbatim>\<open>dataset[indices[i]]\<close> and its length is \<^verbatim>\<open>len(indices)\<close>.
  A framework object (dataset element, model, metric value) is opaque: type \<open>'o\<close>.
\<close>

record 'o subset =
  base :: "'o list"
  indices :: "nat list"

definition subset_len :: "'o subset \<Rightarrow> nat" where
  "subset_len d = length (indices d)"

datatype index_error = IndexError

definition subset_getitem :: "'o subset \<Rightarrow> nat \<Rightarrow> index_error + 'o" where
  "subset_getitem d i =
     (if i < length (indices d)
      then (if indices d ! i < length (base d) then Inr (base d ! (indices d ! i))
            else Inl IndexError)
      else Inl IndexError)"

record 'o loader =
  dataset :: "'o subset"
  shuffle :: bool
  batch_size :: cval

record tb_logger =
  save_dir :: cval
  name :: cval

datatype callback =
    ModelCheckpoint "string option" string string
  | TQDMProgressBar cval

record trainer =
  min_epochs :: cval
  max_epochs :: cval
  gpus :: "int option"
  logger :: tb_logger
  callbacks :: "callback list"

record 'o fit_result =
  epochs_run :: nat
  trained :: 'o

type_synonym 'o metrics = "(string \<times> 'o) list"

section \<open>The trace of a run\<close>

text \<open>
  Every interaction of a notebook with its environment is an event, appended to the
  trace when it happens; a call is recorded with its arguments before its outcome is
  known, and an exception is recorded by \<open>Raise\<close> when it is raised.
\<close>

datatype 'o event =
    GetIPython
  | Print string
  | Shell string
  | Import string
  | GetCfgDefaults
  | MergeFromFile string
  | Freeze
  | PrintCfg centries
  | CfgRead ckey cval
  | SetSeed cval
  | CudaIsAvailable
  | NewBindingDBDataset cval string cval
  | Randperm nat
  | NewSubset "'o subset"
  | Display cval
  | NewDataLoader "'o loader"
  | NewDigitDataset string
  | GetSourceTarget cval
  | NewMultiDomainDatasets cval cval cval "int list"
  | GetModel
  | NewTensorBoardLogger tb_logger
  | NewCallback callback
  | NewTrainer trainer
  | Fit trainer 'o "'o loader option" "'o loader option"
  | FitDone "'o fit_result"
  | Test trainer "'o loader option"
  | Raise exn

text \<open>
  The state of the kernel: the state of the global random generator, the \<^verbatim>\<open>CfgNode\<close>
  object the name \<^verbatim>\<open>cfg\<close> is bound to (none before the configuration cell), the trace.
\<close>

record 'o nbstate =
  rng :: nat
  cfg :: "cfgnode option"
  trace :: "'o event list"

definition init_state :: "nat \<Rightarrow> 'o nbstate" where
  "init_state g = \<lparr>rng = g, cfg = None, trace = []\<rparr>"

text \<open>
  A statement runs in a state and either returns a value or raises; the state it
  leaves is kept in both cases. \<open>andthen\<close> is statement sequencing: nothing after a
  raise runs, which is how a notebook stops at the first failing cell.
\<close>

type_synonym ('o, 'a) nb = "'o nbstate \<Rightarrow> (exn + 'a) \<times> 'o nbstate"

definition ret :: "'a \<Rightarrow> ('o, 'a) nb" where
  "ret a s = (Inr a, s)"

definition andthen :: "('o, 'a) nb \<Rightarrow> ('a \<Rightarrow> ('o, 'b) nb) \<Rightarrow> ('o, 'b) nb" where
  "andthen m f s = (case m s of (Inl e, s') \<Rightarrow> (Inl e, s') | (Inr a, s') \<Rightarrow> f a s')"

definition emit :: "'o event \<Rightarrow> ('o, unit) nb" where
  "emit ev s = (Inr (), s\<lparr>trace := trace s @ [ev]\<rparr>)"

definition throw :: "exn \<Rightarrow> ('o, 'a) nb" where
  "throw e s = (Inl e, s\<lparr>trace := trace s @ [Raise e]\<rparr>)"

definition outcome :: "exn + 'a \<Rightarrow> ('o, 'a) nb" where
  "outcome r = (case r of Inl e \<Rightarrow> throw e | Inr a \<Rightarrow> ret a)"

definition call :: "'o event \<Rightarrow> exn + 'a \<Rightarrow> ('o, 'a) nb" where
  "call ev r = andthen (emit ev) (\<lambda>_. outcome r)"

definition call_rng :: "'o event \<Rightarrow> (nat \<Rightarrow> (exn + 'a) \<times> nat) \<Rightarrow> ('o, 'a) nb" where
  "call_rng ev f =
     andthen (emit ev) (\<lambda>_ s. case f (rng s) of (r, g) \<Rightarrow> outcome r (s\<lparr>rng := g\<rparr>))"

definition checked :: "exn option \<Rightarrow> 'a \<Rightarrow> exn + 'a" where
  "checked r a = (case r of None \<Rightarrow> Inr a | Some e \<Rightarrow> Inl e)"

section \<open>The environment of a run\<close>

text \<open>
  Everything the notebooks call but do not define: the IPython shell, the import
  system, the example's \<^verbatim>\<open>config.py\<close> and \<^verbatim>\<open>model.py\<close>, the configuration
  library, \<^verbatim>\<open>torch\<close>, \<^verbatim>\<open>kale\<close> and \<^verbatim>\<open>pytorch_lightning\<close>. Each is a parameter of a
  run. A call that may raise returns a sum; a call that draws from the global random
  generator takes its state and returns the new one.
\<close>

record 'o env =
  ipython_repr :: string
  import_module :: "string \<Rightarrow> exn option"
  get_cfg_defaults :: centries
  merge_from_file :: "centries \<Rightarrow> string \<Rightarrow> exn + centries"
  py_str :: "cval \<Rightarrow> string"
  set_seed :: "cval \<Rightarrow> exn + nat"
  cuda_is_available :: bool
  BindingDBDataset :: "cval \<Rightarrow> string \<Rightarrow> cval \<Rightarrow> exn + 'o list"
  randperm :: "nat \<Rightarrow> nat \<Rightarrow> nat list \<times> nat"
  DataLoader :: "'o loader \<Rightarrow> exn option"
  deepdta_get_model :: "centries \<Rightarrow> nat \<Rightarrow> (exn + 'o) \<times> nat"
  DigitDataset :: "string \<Rightarrow> exn + 'o"
  get_source_target :: "'o \<Rightarrow> 'o \<Rightarrow> cval \<Rightarrow> exn + 'o \<times> 'o \<times> 'o"
  MultiDomainDatasets :: "'o \<Rightarrow> 'o \<Rightarrow> cval \<Rightarrow> cval \<Rightarrow> cval \<Rightarrow> int list \<Rightarrow> exn + 'o"
  dann_get_model :: "centries \<Rightarrow> 'o \<Rightarrow> 'o \<Rightarrow> nat \<Rightarrow> (exn + 'o \<times> 'o) \<times> nat"
  Trainer :: "trainer \<Rightarrow> exn option"
  fit :: "trainer \<Rightarrow> 'o \<Rightarrow> 'o loader option \<Rightarrow> 'o loader option \<Rightarrow> nat
            \<Rightarrow> (exn + 'o fit_result) \<times> nat"
  test :: "trainer \<Rightarrow> 'o fit_result \<Rightarrow> 'o loader option \<Rightarrow> nat \<Rightarrow> (exn + 'o metrics) \<times> nat"

section \<open>Operations shared by the two notebooks\<close>

text \<open>\<^verbatim>\<open>'google.colab' in str(get_ipython())\<close>: the substring test of Python.\<close>

fun contains :: "string \<Rightarrow> string \<Rightarrow> bool" where
  "contains p [] = (p = [])"
| "contains p (c # cs) = (prefix p (c # cs) \<or> contains p cs)"

fun shell_all :: "string list \<Rightarrow> ('o, unit) nb" where
  "shell_all [] = ret ()"
| "shell_all (c # cs) = andthen (emit (Shell c)) (\<lambda>_. shell_all cs)"

text \<open>
  The first code cell of both notebooks; \<open>setup\<close> is the list of \<^verbatim>\<open>!\<close> and \<^verbatim>\<open>%\<close>
  lines of the Colab branch. A shell line does not raise in the kernel.
\<close>

definition check_colab :: "'o env \<Rightarrow> string list \<Rightarrow> ('o, unit) nb" where
  "check_colab env setup =
     andthen (emit GetIPython) (\<lambda>_.
       if contains ''google.colab'' (ipython_repr env)
       then andthen (emit (Print ''Running on CoLab'')) (\<lambda>_. shell_all setup)
       else emit (Print ''Not running on CoLab''))"

text \<open>The import cell: one \<^verbatim>\<open>import\<close> statement after the other.\<close>

fun import_all :: "'o env \<Rightarrow> string list \<Rightarrow> ('o, unit) nb" where
  "import_all env [] = ret ()"
| "import_all env (m # ms) =
     andthen (call (Import m) (checked (import_module env m) ())) (\<lambda>_. import_all env ms)"

text \<open>The object the name \<^verbatim>\<open>cfg\<close> is bound to.\<close>

definition the_cfg :: "('o, cfgnode) nb" where
  "the_cfg s = (case cfg s of None \<Rightarrow> throw (NameError ''cfg'') s | Some c \<Rightarrow> ret c s)"

definition set_cfg :: "cfgnode \<Rightarrow> ('o, unit) nb" where
  "set_cfg c s = (Inr (), s\<lparr>cfg := Some c\<rparr>)"

text \<open>\<^verbatim>\<open>cfg = get_cfg_defaults()\<close>\<close>

definition cfg_defaults :: "'o env \<Rightarrow> ('o, unit) nb" where
  "cfg_defaults env =
     andthen (emit GetCfgDefaults) (\<lambda>_.
       set_cfg \<lparr>entries = get_cfg_defaults env, frozen = False\<rparr>)"

text \<open>\<^verbatim>\<open>cfg.merge_from_file(cfg_path)\<close>\<close>

definition cfg_merge_from_file :: "'o env \<Rightarrow> string \<Rightarrow> ('o, unit) nb" where
  "cfg_merge_from_file env path =
     andthen the_cfg (\<lambda>c.
     andthen (call (MergeFromFile path) (merge_from_file env (entries c) path)) (\<lambda>merged.
       set_cfg (c\<lparr>entries := merged\<rparr>)))"

text \<open>\<^verbatim>\<open>cfg.freeze()\<close>\<close>

definition cfg_freeze :: "('o, unit) nb" where
  "cfg_freeze =
     andthen the_cfg (\<lambda>c.
     andthen (emit Freeze) (\<lambda>_.
       set_cfg (c\<lparr>frozen := True\<rparr>)))"

text \<open>\<^verbatim>\<open>print(cfg)\<close>\<close>

definition cfg_print :: "('o, unit) nb" where
  "cfg_print = andthen the_cfg (\<lambda>c. emit (PrintCfg (entries c)))"

text \<open>\<^verbatim>\<open>cfg.SECTION.KEY\<close>: a read of the object \<^verbatim>\<open>cfg\<close> is bound to at that moment.\<close>

definition cfg_get :: "ckey \<Rightarrow> ('o, cval) nb" where
  "cfg_get k =
     andthen the_cfg (\<lambda>c.
       case map_of (entries c) k of
         None \<Rightarrow> throw (AttributeError (fst k @ ''.'' @ snd k))
       | Some v \<Rightarrow> andthen (emit (CfgRead k v)) (\<lambda>_. ret v))"

text \<open>
  The first three statements of the configuration cell of both notebooks:
  \<^verbatim>\<open>
  cfg_path = "./configs/tutorial.yaml"
  cfg = get_cfg_defaults()
  cfg.merge_from_file(cfg_path)
  cfg.freeze()
  \<close>
\<close>

definition cfg_path :: string where
  "cfg_path = ''./configs/tutorial.yaml''"

definition load_config :: "'o env \<Rightarrow> ('o, unit) nb" where
  "load_config env =
     andthen (cfg_defaults env) (\<lambda>_.
     andthen (cfg_merge_from_file env cfg_path) (\<lambda>_.
       cfg_freeze))"

text \<open>
  Both notebooks begin alike: the Colab cell, the import cell, and the configuration
  cell up to and including \<^verbatim>\<open>cfg.freeze()\<close>.
\<close>

definition prologue :: "'o env \<Rightarrow> string list \<Rightarrow> string list \<Rightarrow> ('o, unit) nb" where
  "prologue env setup imports =
     andthen (check_colab env setup) (\<lambda>_.
     andthen (import_all env imports) (\<lambda>_.
       load_config env))"

text \<open>
  Modelled from the spec: \<^verbatim>\<open>kale.utils.seed.set_seed\<close>, which both notebooks import and
  call, is not among the sources. \<^verbatim>\<open>set_seed(seed)\<close> is taken to put the global random
  generator into the state the seed determines, whatever state it was in; it may raise.
\<close>

definition seed_generator :: "'o env \<Rightarrow> cval \<Rightarrow> ('o, unit) nb" where
  "seed_generator env seed =
     call_rng (SetSeed seed)
       (\<lambda>g. case set_seed env seed of Inl e \<Rightarrow> (Inl e, g) | Inr g' \<Rightarrow> (Inr (), g'))"

text \<open>
  \<^verbatim>\<open>
  device = "cuda" if torch.cuda.is_available() else "cpu"
  print("Using: " + device)
  gpus = 1 if device == "cuda" else <no_gpu>
  \<close>
  where \<^verbatim>\<open><no_gpu>\<close> is \<^verbatim>\<open>0\<close> in the DeepDTA notebook and \<^verbatim>\<open>None\<close> in the DANN
  notebook. The value of \<^verbatim>\<open>gpus\<close> is an \<open>int option\<close>, \<open>None\<close> for Python's \<^verbatim>\<open>None\<close>.
\<close>

definition check_gpu :: "'o env \<Rightarrow> int option \<Rightarrow> ('o, string \<times> int option) nb" where
  "check_gpu env no_gpu =
     andthen (call CudaIsAvailable (Inr (cuda_is_available env))) (\<lambda>available.
     let device = (if available then ''cuda'' else ''cpu'') in
     andthen (emit (Print (''Using: '' @ device))) (\<lambda>_.
     let gpus_v = (if device = ''cuda'' then Some 1 else no_gpu) in
       ret (device, gpus_v)))"

text \<open>A constructor of \<^verbatim>\<open>torch\<close> or \<^verbatim>\<open>pytorch_lightning\<close> that validates its arguments.\<close>

definition new_loader :: "'o env \<Rightarrow> 'o subset \<Rightarrow> bool \<Rightarrow> cval \<Rightarrow> ('o, 'o loader) nb" where
  "new_loader env d sh b =
     (let l = \<lparr>dataset = d, shuffle = sh, batch_size = b\<rparr>
      in call (NewDataLoader l) (checked (DataLoader env l) l))"

definition new_trainer :: "'o env \<Rightarrow> trainer \<Rightarrow> ('o, trainer) nb" where
  "new_trainer env t = call (NewTrainer t) (checked (Trainer env t) t)"

definition new_logger :: "cval \<Rightarrow> cval \<Rightarrow> ('o, tb_logger) nb" where
  "new_logger d n =
     (let l = \<lparr>save_dir = d, name = n\<rparr> in andthen (emit (NewTensorBoardLogger l)) (\<lambda>_. ret l))"

definition new_callback :: "callback \<Rightarrow> ('o, callback) nb" where
  "new_callback c = andthen (emit (NewCallback c)) (\<lambda>_. ret c)"

text \<open>
  \<^verbatim>\<open>trainer.fit(model, ...)\<close> and \<^verbatim>\<open>trainer.test(...)\<close>. The \<^verbatim>\<open>%time\<close> magic in front
  of them only reports the time taken.
\<close>

definition trainer_fit ::
  "'o env \<Rightarrow> trainer \<Rightarrow> 'o \<Rightarrow> 'o loader option \<Rightarrow> 'o loader option \<Rightarrow> ('o, 'o fit_result) nb" where
  "trainer_fit env t m train_l val_l =
     andthen (call_rng (Fit t m train_l val_l) (fit env t m train_l val_l)) (\<lambda>r.
     andthen (emit (FitDone r)) (\<lambda>_. ret r))"

definition trainer_test ::
  "'o env \<Rightarrow> trainer \<Rightarrow> 'o fit_result \<Rightarrow> 'o loader option \<Rightarrow> ('o, 'o metrics) nb" where
  "trainer_test env t r l = call_rng (Test t l) (test env t r l)"

section \<open>The DeepDTA notebook\<close>

definition deepdta_setup :: "string list" where
  "deepdta_setup =
     [''pip uninstall --yes imgaug && pip uninstall --yes albumentations && pip install git+https://github.com/aleju/imgaug.git'',
      ''pip install rdkit-pypi torchaudio torch-scatter torch-sparse torch-cluster torch-spline-conv torch-geometric -f https://data.pyg.org/whl/torch-1.10.0+cu113.html'',
      ''pip install git+https://github.com/pykale/pykale.git'',
      ''git clone https://github.com/pykale/pykale.git'',
      ''cd pykale/examples/bindingdb_deepdta'']"

definition deepdta_imports :: "string list" where
  "deepdta_imports =
     [''pytorch_lightning'', ''torch'', ''config'', ''model'',
      ''pytorch_lightning.callbacks'', ''pytorch_lightning.loggers'', ''torch.utils.data'',
      ''kale.loaddata.tdc_datasets'', ''kale.utils.seed'']"

text \<open>\<^verbatim>\<open>train_subset_size, valid_subset_size, test_subset_size = 8000, 1000, 1000\<close>\<close>

definition train_subset_size :: nat where "train_subset_size = 8000"
definition valid_subset_size :: nat where "valid_subset_size = 1000"
definition test_subset_size :: nat where "test_subset_size = 1000"

text \<open>
  \<^verbatim>\<open>BindingDBDataset(name=cfg.DATASET.NAME, split=split, path=cfg.DATASET.PATH)\<close>
\<close>

definition load_split :: "'o env \<Rightarrow> string \<Rightarrow> ('o, 'o list) nb" where
  "load_split env split =
     andthen (cfg_get (''DATASET'', ''NAME'')) (\<lambda>n.
     andthen (cfg_get (''DATASET'', ''PATH'')) (\<lambda>p.
       call (NewBindingDBDataset n split p) (BindingDBDataset env n split p)))"

text \<open>\<^verbatim>\<open>torch.randperm(n)[:subset_size].tolist()\<close>\<close>

definition sample_indices :: "'o env \<Rightarrow> nat \<Rightarrow> nat \<Rightarrow> ('o, nat list) nb" where
  "sample_indices env n subset_size =
     andthen (call_rng (Randperm n) (\<lambda>g. case randperm env n g of (p, g') \<Rightarrow> (Inr p, g')))
       (\<lambda>p. ret (take subset_size p))"

text \<open>\<^verbatim>\<open>Subset(dataset, sample_indices)\<close>\<close>

definition new_subset :: "'o list \<Rightarrow> nat list \<Rightarrow> ('o, 'o subset) nb" where
  "new_subset d idx =
     (let sub = \<lparr>base = d, indices = idx\<rparr> in andthen (emit (NewSubset sub)) (\<lambda>_. ret sub))"

text \<open>
  The cell \<^emph>\<open>Select Datasets\<close>. A tuple is evaluated left to right.
\<close>

definition deepdta_select_datasets :: "'o env \<Rightarrow> ('o, 'o subset \<times> 'o subset \<times> 'o subset) nb" where
  "deepdta_select_datasets env =
     andthen (load_split env ''train'') (\<lambda>train_dataset.
     andthen (load_split env ''valid'') (\<lambda>valid_dataset.
     andthen (load_split env ''test'') (\<lambda>test_dataset.
     let train_size = length train_dataset;
         valid_size = length valid_dataset;
         test_size = length test_dataset in
     andthen (sample_indices env train_size train_subset_size) (\<lambda>train_sample_indices.
     andthen (sample_indices env valid_size valid_subset_size) (\<lambda>valid_sample_indices.
     andthen (sample_indices env test_size test_subset_size) (\<lambda>test_sample_indices.
     andthen (new_subset train_dataset train_sample_indices) (\<lambda>train_subset.
     andthen (new_subset valid_dataset valid_sample_indices) (\<lambda>valid_subset.
     andthen (new_subset test_dataset test_sample_indices) (\<lambda>test_subset.
       ret (train_subset, valid_subset, test_subset))))))))))"

text \<open>The cell \<^verbatim>\<open>cfg.DATASET.PATH\<close>, whose value the notebook displays.\<close>

definition deepdta_show_path :: "('o, unit) nb" where
  "deepdta_show_path = andthen (cfg_get (''DATASET'', ''PATH'')) (\<lambda>p. emit (Display p))"

text \<open>The three \<^verbatim>\<open>DataLoader(dataset=..., shuffle=True, batch_size=...)\<close> lines.\<close>

definition deepdta_loaders ::
  "'o env \<Rightarrow> 'o subset \<Rightarrow> 'o subset \<Rightarrow> 'o subset \<Rightarrow> ('o, 'o loader \<times> 'o loader \<times> 'o loader) nb" where
  "deepdta_loaders env train_dataset valid_dataset test_dataset =
     andthen (cfg_get (''SOLVER'', ''TRAIN_BATCH_SIZE'')) (\<lambda>b1.
     andthen (new_loader env train_dataset True b1) (\<lambda>train_loader.
     andthen (cfg_get (''SOLVER'', ''TEST_BATCH_SIZE'')) (\<lambda>b2.
     andthen (new_loader env valid_dataset True b2) (\<lambda>valid_loader.
     andthen (cfg_get (''SOLVER'', ''TEST_BATCH_SIZE'')) (\<lambda>b3.
     andthen (new_loader env test_dataset True b3) (\<lambda>test_loader.
       ret (train_loader, valid_loader, test_loader)))))))"

text \<open>\<^verbatim>\<open>model = get_model(cfg)\<close>\<close>

definition deepdta_model :: "'o env \<Rightarrow> ('o, 'o) nb" where
  "deepdta_model env =
     andthen the_cfg (\<lambda>c. call_rng GetModel (deepdta_get_model env (entries c)))"

text \<open>\<^verbatim>\<open>tb_logger = TensorBoardLogger("tb_logs", name=cfg.DATASET.NAME)\<close>\<close>

definition deepdta_logger :: "('o, tb_logger) nb" where
  "deepdta_logger =
     andthen (cfg_get (''DATASET'', ''NAME'')) (\<lambda>n. new_logger (CStr ''tb_logs'') n)"

text \<open>
  \<^verbatim>\<open>
  checkpoint_callback = ModelCheckpoint(monitor="valid_loss", mode="min")
  trainer = pl.Trainer(min_epochs=cfg.SOLVER.MIN_EPOCHS,
                       max_epochs=cfg.SOLVER.MAX_EPOCHS,
                       gpus=gpus, logger=tb_logger,
                       callbacks=[checkpoint_callback])
  \<close>
\<close>

definition deepdta_trainer :: "'o env \<Rightarrow> int option \<Rightarrow> tb_logger \<Rightarrow> ('o, trainer) nb" where
  "deepdta_trainer env gpus_v tb =
     andthen (new_callback (ModelCheckpoint None ''valid_loss'' ''min'')) (\<lambda>checkpoint_callback.
     andthen (cfg_get (''SOLVER'', ''MIN_EPOCHS'')) (\<lambda>lo.
     andthen (cfg_get (''SOLVER'', ''MAX_EPOCHS'')) (\<lambda>hi.
       new_trainer env \<lparr>min_epochs = lo, max_epochs = hi, gpus = gpus_v, logger = tb,
                        callbacks = [checkpoint_callback]\<rparr>)))"

text \<open>
  The notebook after \<^verbatim>\<open>cfg.freeze()\<close>: the rest of the configuration cell
  (\<^verbatim>\<open>print(cfg)\<close> and \<^verbatim>\<open>set_seed(cfg.SOLVER.SEED)\<close>), then cell after cell. The value
  of a run is the value of its last cell,
  \<^verbatim>\<open>trainer.test(test_dataloaders=test_loader)\<close>, which the notebook displays.
\<close>

definition deepdta_frozen :: "'o env \<Rightarrow> ('o, 'o metrics) nb" where
  "deepdta_frozen env =
     andthen cfg_print (\<lambda>_.
     andthen (cfg_get (''SOLVER'', ''SEED'')) (\<lambda>seed.
     andthen (seed_generator env seed) (\<lambda>_.
     andthen (check_gpu env (Some 0)) (\<lambda>(device, gpus_v).
     andthen (deepdta_select_datasets env) (\<lambda>(train_dataset, valid_dataset, test_dataset).
     andthen deepdta_show_path (\<lambda>_.
     andthen (deepdta_loaders env train_dataset valid_dataset test_dataset)
       (\<lambda>(train_loader, valid_loader, test_loader).
     andthen (deepdta_model env) (\<lambda>model.
     andthen deepdta_logger (\<lambda>tb.
     andthen (deepdta_trainer env gpus_v tb) (\<lambda>t.
     andthen (trainer_fit env t model (Some train_loader) (Some valid_loader)) (\<lambda>r.
       trainer_test env t r (Some test_loader))))))))))))"

definition deepdta_notebook :: "'o env \<Rightarrow> ('o, 'o metrics) nb" where
  "deepdta_notebook env =
     andthen (prologue env deepdta_setup deepdta_imports) (\<lambda>_. deepdta_frozen env)"

text \<open>
  \<^emph>\<open>Run all\<close> in a fresh kernel, whose random generator is in some state \<open>g\<close>.
\<close>

definition run_deepdta :: "'o env \<Rightarrow> nat \<Rightarrow> (exn + 'o metrics) \<times> 'o nbstate" where
  "run_deepdta env g = deepdta_notebook env (init_state g)"

section \<open>The DANN notebook\<close>

definition dann_setup :: "string list" where
  "dann_setup =
     [''pip uninstall --yes imgaug && pip uninstall --yes albumentations && pip install git+https://github.com/aleju/imgaug.git'',
      ''pip install git+https://github.com/pykale/pykale.git'',
      ''git clone https://github.com/pykale/pykale.git'',
      ''cd pykale/examples/digits_dann_lightn'']"

definition dann_imports :: "string list" where
  "dann_imports =
     [''logging'', ''os'', ''config'', ''numpy'', ''pytorch_lightning'', ''torch'',
      ''torch.utils.data'', ''torch.utils.data'', ''torchvision'', ''model'',
      ''pytorch_lightning.callbacks'', ''pytorch_lightning.loggers'',
      ''kale.loaddata.image_access'', ''kale.loaddata.multi_domain'', ''kale.utils.seed'']"

text \<open>\<^verbatim>\<open>str.upper\<close>, on the ASCII letters; on a value that is no string it is an \<^verbatim>\<open>AttributeError\<close>.\<close>

definition upper_char :: "char \<Rightarrow> char" where
  "upper_char c =
     (case map_of (zip ''abcdefghijklmnopqrstuvwxyz'' ''ABCDEFGHIJKLMNOPQRSTUVWXYZ'') c of
        None \<Rightarrow> c | Some u \<Rightarrow> u)"

definition upper :: "cval \<Rightarrow> ('o, string) nb" where
  "upper v = (case v of CStr s \<Rightarrow> ret (map upper_char s) | _ \<Rightarrow> throw (AttributeError ''upper''))"

text \<open>\<^verbatim>\<open>DigitDataset(cfg.DATASET.<which>.upper())\<close>\<close>

definition digit_dataset :: "'o env \<Rightarrow> string \<Rightarrow> ('o, 'o) nb" where
  "digit_dataset env which =
     andthen (cfg_get (''DATASET'', which)) (\<lambda>v.
     andthen (upper v) (\<lambda>n.
       call (NewDigitDataset n) (DigitDataset env n)))"

text \<open>
  The cell \<^emph>\<open>Select Datasets\<close>:
  \<^verbatim>\<open>
  source, target, num_channels = DigitDataset.get_source_target(
      DigitDataset(cfg.DATASET.SOURCE.upper()), DigitDataset(cfg.DATASET.TARGET.upper()),
      cfg.DATASET.ROOT)
  class_subset = [1, 3, 8]
  dataset = MultiDomainDatasets(
      source, target,
      config_weight_type=cfg.DATASET.WEIGHT_TYPE,
      config_size_type=cfg.DATASET.SIZE_TYPE,
      valid_split_ratio=cfg.DATASET.VALID_SPLIT_RATIO,
      class_ids=class_subset)
  \<close>
\<close>

definition dann_select_datasets :: "'o env \<Rightarrow> ('o, 'o \<times> 'o) nb" where
  "dann_select_datasets env =
     andthen (digit_dataset env ''SOURCE'') (\<lambda>src.
     andthen (digit_dataset env ''TARGET'') (\<lambda>tgt.
     andthen (cfg_get (''DATASET'', ''ROOT'')) (\<lambda>root.
     andthen (call (GetSourceTarget root) (get_source_target env src tgt root))
       (\<lambda>(source, target, num_channels).
     let class_subset = [1, 3, 8] in
     andthen (cfg_get (''DATASET'', ''WEIGHT_TYPE'')) (\<lambda>w.
     andthen (cfg_get (''DATASET'', ''SIZE_TYPE'')) (\<lambda>sz.
     andthen (cfg_get (''DATASET'', ''VALID_SPLIT_RATIO'')) (\<lambda>ratio.
     andthen (call (NewMultiDomainDatasets w sz ratio class_subset)
                (MultiDomainDatasets env source target w sz ratio class_subset)) (\<lambda>dataset_v.
       ret (dataset_v, num_channels)))))))))"

text \<open>\<^verbatim>\<open>model, train_params = get_model(cfg, dataset, num_channels)\<close>\<close>

definition dann_model :: "'o env \<Rightarrow> 'o \<Rightarrow> 'o \<Rightarrow> ('o, 'o \<times> 'o) nb" where
  "dann_model env dataset_v num_channels =
     andthen the_cfg (\<lambda>c.
       call_rng GetModel (dann_get_model env (entries c) dataset_v num_channels))"

text \<open>\<^verbatim>\<open>tb_logger = TensorBoardLogger(cfg.OUTPUT.TB_DIR, name="seed{}".format(seed))\<close>\<close>

definition dann_logger :: "'o env \<Rightarrow> cval \<Rightarrow> ('o, tb_logger) nb" where
  "dann_logger env seed =
     andthen (cfg_get (''OUTPUT'', ''TB_DIR'')) (\<lambda>d.
       new_logger d (CStr (''seed'' @ py_str env seed)))"

text \<open>
  \<^verbatim>\<open>
  checkpoint_callback = ModelCheckpoint(
      filename="{epoch}-{step}-{valid_loss:.4f}", monitor="valid_loss", mode="min",)
  progress_bar = TQDMProgressBar(cfg.OUTPUT.PB_FRESH)
  trainer = pl.Trainer(
      min_epochs=cfg.SOLVER.MIN_EPOCHS,
      max_epochs=cfg.SOLVER.MAX_EPOCHS,
      callbacks=[checkpoint_callback, progress_bar],
      logger=tb_logger,
      gpus=gpus)
  \<close>
\<close>

definition dann_trainer :: "'o env \<Rightarrow> int option \<Rightarrow> tb_logger \<Rightarrow> ('o, trainer) nb" where
  "dann_trainer env gpus_v tb =
     andthen (new_callback
                (ModelCheckpoint (Some ''{epoch}-{step}-{valid_loss:.4f}'') ''valid_loss'' ''min''))
       (\<lambda>checkpoint_callback.
     andthen (cfg_get (''OUTPUT'', ''PB_FRESH'')) (\<lambda>rate.
     andthen (new_callback (TQDMProgressBar rate)) (\<lambda>progress_bar.
     andthen (cfg_get (''SOLVER'', ''MIN_EPOCHS'')) (\<lambda>lo.
     andthen (cfg_get (''SOLVER'', ''MAX_EPOCHS'')) (\<lambda>hi.
       new_trainer env \<lparr>min_epochs = lo, max_epochs = hi, gpus = gpus_v, logger = tb,
                        callbacks = [checkpoint_callback, progress_bar]\<rparr>)))))"

text \<open>
  The notebook after \<^verbatim>\<open>cfg.freeze()\<close>: \<^verbatim>\<open>print(cfg)\<close>, then cell after cell; the seed
  is set in the cell \<^emph>\<open>Set Seed\<close>, after the datasets are selected. The value of a
  run is the value of \<^verbatim>\<open>trainer.test()\<close>.
\<close>

definition dann_frozen :: "'o env \<Rightarrow> ('o, 'o metrics) nb" where
  "dann_frozen env =
     andthen cfg_print (\<lambda>_.
     andthen (check_gpu env None) (\<lambda>(device, gpus_v).
     andthen (dann_select_datasets env) (\<lambda>(dataset_v, num_channels).
     andthen (cfg_get (''SOLVER'', ''SEED'')) (\<lambda>seed.
     andthen (seed_generator env seed) (\<lambda>_.
     andthen (dann_model env dataset_v num_channels) (\<lambda>(model, train_params).
     andthen (dann_logger env seed) (\<lambda>tb.
     andthen (dann_trainer env gpus_v tb) (\<lambda>t.
     andthen (trainer_fit env t model None None) (\<lambda>r.
       trainer_test env t r None)))))))))"

definition dann_notebook :: "'o env \<Rightarrow> ('o, 'o metrics) nb" where
  "dann_notebook env =
     andthen (prologue env dann_setup dann_imports) (\<lambda>_. dann_frozen env)"

definition run_dann :: "'o env \<Rightarrow> nat \<Rightarrow> (exn + 'o metrics) \<times> 'o nbstate" where
  "run_dann env g = dann_notebook env (init_state g)"

section \<open>Observations on a trace\<close>

text \<open>
  An event that records a raised exception.
\<close>

definition is_raise :: "'o event \<Rightarrow> bool" where
  "is_raise ev = (case ev of Raise _ \<Rightarrow> True | _ \<Rightarrow> False)"

text \<open>
  The seven stages of a notebook, in the order of the cells, and the stage a call
  belongs to. \<open>GetIPython\<close> and the shell lines of the Colab branch are the environment
  check; the calls on \<^verbatim>\<open>cfg\<close> that build and print it are the configuration loading;
  everything that builds a dataset, a subset of one or a data loader is the dataset
  construction; \<^verbatim>\<open>get_model\<close> is the model instantiation; the logger, the callbacks and
  \<^verbatim>\<open>pl.Trainer\<close> are the trainer setup. An import, a print, a read of a configuration
  key, \<^verbatim>\<open>set_seed\<close>, the CUDA test, a displayed value, the return of \<^verbatim>\<open>fit\<close> and a raise
  belong to no stage.
\<close>

datatype stage = EnvCheck | ConfigLoad | DatasetBuild | ModelBuild | TrainerSetup | FitCall | TestCall


fun stage_of :: "'o event \<Rightarrow> stage option" where
  "stage_of GetIPython = Some EnvCheck"
| "stage_of (Shell c) = Some EnvCheck"
| "stage_of GetCfgDefaults = Some ConfigLoad"
| "stage_of (MergeFromFile p) = Some ConfigLoad"
| "stage_of Freeze = Some ConfigLoad"
| "stage_of (PrintCfg c) = Some ConfigLoad"
| "stage_of (NewBindingDBDataset n s p) = Some DatasetBuild"
| "stage_of (Randperm n) = Some DatasetBuild"
| "stage_of (NewSubset d) = Some DatasetBuild"
| "stage_of (NewDataLoader l) = Some DatasetBuild"
| "stage_of (NewDigitDataset n) = Some DatasetBuild"
| "stage_of (GetSourceTarget r) = Some DatasetBuild"
| "stage_of (NewMultiDomainDatasets w s r c) = Some DatasetBuild"
| "stage_of GetModel = Some ModelBuild"
| "stage_of (NewTensorBoardLogger l) = Some TrainerSetup"
| "stage_of (NewCallback c) = Some TrainerSetup"
| "stage_of (NewTrainer t) = Some TrainerSetup"
| "stage_of (Fit t m a b) = Some FitCall"
| "stage_of (Test t l) = Some TestCall"
| "stage_of _ = None"



text \<open>
  The events of the first two cells (and a raise); the calls that build or change the
  configuration object; the events that touch it at all.
\<close>

definition setup_event :: "'o event \<Rightarrow> bool" where
  "setup_event ev =
     (case ev of GetIPython \<Rightarrow> True | Print _ \<Rightarrow> True | Shell _ \<Rightarrow> True | Import _ \<Rightarrow> True
      | Raise _ \<Rightarrow> True | _ \<Rightarrow> False)"

definition cfg_write :: "'o event \<Rightarrow> bool" where
  "cfg_write ev =
     (case ev of GetCfgDefaults \<Rightarrow> True | MergeFromFile _ \<Rightarrow> True | Freeze \<Rightarrow> True | _ \<Rightarrow> False)"

definition cfg_event :: "'o event \<Rightarrow> bool" where
  "cfg_event ev =
     (case ev of GetCfgDefaults \<Rightarrow> True | MergeFromFile _ \<Rightarrow> True | Freeze \<Rightarrow> True
      | PrintCfg _ \<Rightarrow> True | CfgRead _ _ \<Rightarrow> True | _ \<Rightarrow> False)"

text \<open>
  The calls that build the datasets of the DANN notebook, and the index lists of the
  subsets a run of the DeepDTA notebook builds, in the order they are built.
\<close>

definition is_dataset_construction :: "'o event \<Rightarrow> bool" where
  "is_dataset_construction ev =
     (case ev of NewDigitDataset _ \<Rightarrow> True | GetSourceTarget _ \<Rightarrow> True
      | NewMultiDomainDatasets _ _ _ _ \<Rightarrow> True | _ \<Rightarrow> False)"

definition sample_index_lists :: "'o event list \<Rightarrow> nat list list" where
  "sample_index_lists tr =
     List.map_filter (\<lambda>ev. case ev of NewSubset sub \<Rightarrow> Some (indices sub) | _ \<Rightarrow> None) tr"

section \<open>The recognised configuration keys\<close>

text \<open>
  The keys the YAML interface is said to recognise: dataset path and name, batch sizes,
  seed, minimum and maximum epoch counts, output directories. The list is generous: the
  root directory of the digit datasets counts as a dataset path, the names of the source
  and the target dataset as dataset names.
\<close>

definition spec_recognized_key :: "ckey \<Rightarrow> bool" where
  "spec_recognized_key k =
     (k \<in> set [(''DATASET'', ''NAME''), (''DATASET'', ''PATH''), (''DATASET'', ''ROOT''),
                (''DATASET'', ''SOURCE''), (''DATASET'', ''TARGET''),
                (''SOLVER'', ''TRAIN_BATCH_SIZE''), (''SOLVER'', ''TEST_BATCH_SIZE''),
                (''SOLVER'', ''SEED''),
                (''SOLVER'', ''MIN_EPOCHS''), (''SOLVER'', ''MAX_EPOCHS''),
                (''OUTPUT'', ''TB_DIR''), (''OUTPUT'', ''DIR'')])"

text \<open>
  The keys the DANN notebook reads besides: how the domains are weighted and sized,
  the share of the validation split, and the refresh rate of the progress bar.
\<close>

definition dann_other_keys :: "ckey list" where
  "dann_other_keys =
     [(''DATASET'', ''WEIGHT_TYPE''), (''DATASET'', ''SIZE_TYPE''),
      (''DATASET'', ''VALID_SPLIT_RATIO''), (''OUTPUT'', ''PB_FRESH'')]"

section \<open>What is assumed of the framework\<close>

text \<open>
  \<^verbatim>\<open>torch.randperm(n)\<close> returns a permutation of \<open>0, ..., n - 1\<close>, whatever the state of
  the generator. (That it is drawn uniformly is a statement about a distribution, which
  a function of the generator state does not express.)
\<close>

definition randperm_permutes :: "'o env \<Rightarrow> bool" where
  "randperm_permutes env = (\<forall>n g. mset (fst (randperm env n g)) = mset [0..<n])"


text \<open>
  Modelled from the spec: the metrics \<^verbatim>\<open>trainer.test\<close> returns are logged by the
  trainers of \<^verbatim>\<open>kale.pipeline\<close>, which are not among the sources. The trainer of the
  regression task reports the root mean square error on the test data; the notebook
  calls it the test loss, and its name is \<^verbatim>\<open>test_loss\<close>.
\<close>

definition deepdta_test_metric :: string where
  "deepdta_test_metric = ''test_loss''"

text \<open>
  Modelled from the spec: the names of the metrics the trainer of the classification
  task reports, as the last cell of the DANN notebook lists them (domain, source and
  target accuracy, and loss).
\<close>

definition dann_test_metrics :: "string list" where
  "dann_test_metrics = [''test_domain_acc'', ''test_source_acc'', ''test_target_acc'', ''test_loss'']"

text \<open>
  Modelled from the spec: every call of \<^verbatim>\<open>trainer.test\<close> that returns reports a metric of
  the name \<open>n\<close>.
\<close>

definition test_includes :: "'o env \<Rightarrow> string \<Rightarrow> bool" where
  "test_includes env n =
     (\<forall>t fr l g ms g'. test env t fr l g = (Inr ms, g') \<longrightarrow> n \<in> set (map fst ms))"

text \<open>
  Modelled from the spec: every call of \<^verbatim>\<open>trainer.test\<close> that returns reports exactly
  the metrics of the names \<open>ns\<close>, each once.
\<close>

definition test_reports :: "'o env \<Rightarrow> string list \<Rightarrow> bool" where
  "test_reports env ns =
     (\<forall>t fr l g ms g'. test env t fr l g = (Inr ms, g') \<longrightarrow>
        distinct (map fst ms) \<and> set (map fst ms) = set ns)"

text \<open>
  The metrics are those of some call of \<^verbatim>\<open>trainer.test\<close>.
\<close>

definition tested :: "'o env \<Rightarrow> 'o metrics \<Rightarrow> bool" where
  "tested env ms = (\<exists>t fr l g g'. test env t fr l g = (Inr ms, g'))"

section \<open>Subsets drawn from a split\<close>

text \<open>
  \<open>sub\<close> is the subset of the split \<open>split\<close> the DeepDTA notebook draws: its base is
  the \<^verbatim>\<open>BindingDBDataset\<close> of that split, its indices are the first \<open>k\<close> entries of
  \<^verbatim>\<open>torch.randperm\<close> of the length of the base.
\<close>

definition sampled :: "'o env \<Rightarrow> string \<Rightarrow> nat \<Rightarrow> 'o subset \<Rightarrow> bool" where
  "sampled env split k sub =
     (\<exists>n p g. BindingDBDataset env n split p = Inr (base sub) \<and>
        indices sub = take k (fst (randperm env (length (base sub)) g)))"

definition sampled_split :: "'o env \<Rightarrow> 'o subset \<Rightarrow> bool" where
  "sampled_split env sub =
     (sampled env ''train'' train_subset_size sub \<or>
      sampled env ''valid'' valid_subset_size sub \<or>
      sampled env ''test'' test_subset_size sub)"

section \<open>Example environments\<close>

text \<open>
  A framework small enough to run the notebooks on: a configuration of seven keys, a
  YAML file that sets \<^verbatim>\<open>MAX_EPOCHS\<close> to 3, splits of three, two and four elements, no GPU,
  a generator whose state is a counter, and a training loop that runs \<^verbatim>\<open>max_epochs\<close>
  epochs. \<open>no_config_env\<close> is the same framework where the configuration file is missing.
\<close>

definition demo_defaults :: centries where
  "demo_defaults =
     [((''DATASET'', ''NAME''), CStr ''BindingDB_Kd''),
      ((''DATASET'', ''PATH''), CStr ''./data''),
      ((''SOLVER'', ''SEED''), CInt 2020),
      ((''SOLVER'', ''TRAIN_BATCH_SIZE''), CInt 256),
      ((''SOLVER'', ''TEST_BATCH_SIZE''), CInt 256),
      ((''SOLVER'', ''MIN_EPOCHS''), CInt 0),
      ((''SOLVER'', ''MAX_EPOCHS''), CInt 100)]"

definition demo_yaml :: centries where
  "demo_yaml = [((''SOLVER'', ''MAX_EPOCHS''), CInt 3)]"

definition demo_merge :: "centries \<Rightarrow> centries \<Rightarrow> centries" where
  "demo_merge yaml d = map (\<lambda>(k, v). (k, case map_of yaml k of None \<Rightarrow> v | Some v' \<Rightarrow> v')) d"

definition demo_fit ::
  "trainer \<Rightarrow> nat \<Rightarrow> nat loader option \<Rightarrow> nat loader option \<Rightarrow> nat \<Rightarrow> (exn + nat fit_result) \<times> nat" where
  "demo_fit t m a b g =
     (case (min_epochs t, max_epochs t) of
        (CInt lo, CInt hi) \<Rightarrow>
          if 0 \<le> lo \<and> lo \<le> hi then (Inr \<lparr>epochs_run = nat hi, trained = m\<rparr>, Suc g)
          else (Inl (FrameworkError ''MisconfigurationException''), g)
      | _ \<Rightarrow> (Inl (FrameworkError ''TypeError''), g))"

definition demo_env :: "nat env" where
  "demo_env =
     \<lparr>ipython_repr = ''<ipykernel.zmqshell.ZMQInteractiveShell object>'',
      import_module = (\<lambda>_. None),
      get_cfg_defaults = demo_defaults,
      merge_from_file = (\<lambda>d p. if p = ''./configs/tutorial.yaml'' then Inr (demo_merge demo_yaml d)
                                else Inl (FrameworkError ''FileNotFoundError'')),
      py_str = (\<lambda>v. case v of CStr s \<Rightarrow> s | _ \<Rightarrow> ''2020''),
      set_seed = (\<lambda>v. case v of CInt n \<Rightarrow> Inr (nat n) | _ \<Rightarrow> Inl (FrameworkError ''TypeError'')),
      cuda_is_available = False,
      BindingDBDataset = (\<lambda>n split p.
         if split = ''train'' then Inr [10, 11, 12]
         else if split = ''valid'' then Inr [20, 21]
         else Inr [30, 31, 32, 33]),
      randperm = (\<lambda>n g. (if even g then rev [0..<n] else [0..<n], Suc g)),
      DataLoader = (\<lambda>_. None),
      deepdta_get_model = (\<lambda>c g. (Inr 100, Suc g)),
      DigitDataset = (\<lambda>n. if n = ''MNIST'' then Inr 1 else if n = ''USPS'' then Inr 2
                            else Inl (FrameworkError ''ValueError'')),
      get_source_target = (\<lambda>s t r. Inr (s + 10, t + 10, 3)),
      MultiDomainDatasets = (\<lambda>s t w sz r c. Inr 50),
      dann_get_model = (\<lambda>c d n g. (Inr (101, 102), Suc g)),
      Trainer = (\<lambda>_. None),
      fit = demo_fit,
      test = (\<lambda>t r l g. (Inr [(''test_loss'', 7)], Suc g))\<rparr>"

definition no_config_env :: "nat env" where
  "no_config_env = demo_env\<lparr>merge_from_file := (\<lambda>d p. Inl (FrameworkError ''FileNotFoundError''))\<rparr>"

text \<open>
  What the DeepDTA notebook does in \<open>demo_env\<close>, and in \<open>no_config_env\<close>.
\<close>

definition demo_cfg :: centries where
  "demo_cfg =
     [((''DATASET'', ''NAME''), CStr ''BindingDB_Kd''),
      ((''DATASET'', ''PATH''), CStr ''./data''),
      ((''SOLVER'', ''SEED''), CInt 2020),
      ((''SOLVER'', ''TRAIN_BATCH_SIZE''), CInt 256),
      ((''SOLVER'', ''TEST_BATCH_SIZE''), CInt 256),
      ((''SOLVER'', ''MIN_EPOCHS''), CInt 0),
      ((''SOLVER'', ''MAX_EPOCHS''), CInt 3)]"

definition demo_train :: "nat subset" where
  "demo_train = \<lparr>base = [10, 11, 12], indices = [2, 1, 0]\<rparr>"

definition demo_valid :: "nat subset" where
  "demo_valid = \<lparr>base = [20, 21], indices = [0, 1]\<rparr>"

definition demo_test :: "nat subset" where
  "demo_test = \<lparr>base = [30, 31, 32, 33], indices = [3, 2, 1, 0]\<rparr>"

definition demo_loader :: "nat subset \<Rightarrow> nat loader" where
  "demo_loader d = \<lparr>dataset = d, shuffle = True, batch_size = CInt 256\<rparr>"

definition demo_trainer :: trainer where
  "demo_trainer =
     \<lparr>min_epochs = CInt 0, max_epochs = CInt 3, gpus = Some 0,
      logger = \<lparr>save_dir = CStr ''tb_logs'', name = CStr ''BindingDB_Kd''\<rparr>,
      callbacks = [ModelCheckpoint None ''valid_loss'' ''min'']\<rparr>"

definition deepdta_demo_trace :: "nat event list" where
  "deepdta_demo_trace =
     [GetIPython, Print ''Not running on CoLab''] @ map Import deepdta_imports @
     [GetCfgDefaults, MergeFromFile ''./configs/tutorial.yaml'', Freeze, PrintCfg demo_cfg,
      CfgRead (''SOLVER'', ''SEED'') (CInt 2020), SetSeed (CInt 2020),
      CudaIsAvailable, Print ''Using: cpu'',
      CfgRead (''DATASET'', ''NAME'') (CStr ''BindingDB_Kd''),
      CfgRead (''DATASET'', ''PATH'') (CStr ''./data''),
      NewBindingDBDataset (CStr ''BindingDB_Kd'') ''train'' (CStr ''./data''),
      CfgRead (''DATASET'', ''NAME'') (CStr ''BindingDB_Kd''),
      CfgRead (''DATASET'', ''PATH'') (CStr ''./data''),
      NewBindingDBDataset (CStr ''BindingDB_Kd'') ''valid'' (CStr ''./data''),
      CfgRead (''DATASET'', ''NAME'') (CStr ''BindingDB_Kd''),
      CfgRead (''DATASET'', ''PATH'') (CStr ''./data''),
      NewBindingDBDataset (CStr ''BindingDB_Kd'') ''test'' (CStr ''./data''),
      Randperm 3, Randperm 2, Randperm 4,
      NewSubset demo_train, NewSubset demo_valid, NewSubset demo_test,
      CfgRead (''DATASET'', ''PATH'') (CStr ''./data''), Display (CStr ''./data''),
      CfgRead (''SOLVER'', ''TRAIN_BATCH_SIZE'') (CInt 256), NewDataLoader (demo_loader demo_train),
      CfgRead (''SOLVER'', ''TEST_BATCH_SIZE'') (CInt 256), NewDataLoader (demo_loader demo_valid),
      CfgRead (''SOLVER'', ''TEST_BATCH_SIZE'') (CInt 256), NewDataLoader (demo_loader demo_test),
      GetModel,
      CfgRead (''DATASET'', ''NAME'') (CStr ''BindingDB_Kd''),
      NewTensorBoardLogger \<lparr>save_dir = CStr ''tb_logs'', name = CStr ''BindingDB_Kd''\<rparr>,
      NewCallback (ModelCheckpoint None ''valid_loss'' ''min''),
      CfgRead (''SOLVER'', ''MIN_EPOCHS'') (CInt 0),
      CfgRead (''SOLVER'', ''MAX_EPOCHS'') (CInt 3),
      NewTrainer demo_trainer,
      Fit demo_trainer 100 (Some (demo_loader demo_train)) (Some (demo_loader demo_valid)),
      FitDone \<lparr>epochs_run = 3, trained = 100\<rparr>,
      Test demo_trainer (Some (demo_loader demo_test))]"

definition deepdta_demo_final :: "nat nbstate" where
  "deepdta_demo_final =
     \<lparr>rng = 2026, cfg = Some \<lparr>entries = demo_cfg, frozen = True\<rparr>, trace = deepdta_demo_trace\<rparr>"

definition no_config_final :: "nat nbstate" where
  "no_config_final =
     \<lparr>rng = 0, cfg = Some \<lparr>entries = demo_defaults, frozen = False\<rparr>,
      trace = [GetIPython, Print ''Not running on CoLab''] @ map Import deepdta_imports @
        [GetCfgDefaults, MergeFromFile ''./configs/tutorial.yaml'',
         Raise (FrameworkError ''FileNotFoundError'')]\<rparr>"

text \<open>
  The same for the DANN notebook, with a configuration of its eleven keys.
\<close>

definition dann_defaults :: centries where
  "dann_defaults =
     [((''DATASET'', ''ROOT''), CStr ''../data''),
      ((''DATASET'', ''SOURCE''), CStr ''mnist''),
      ((''DATASET'', ''TARGET''), CStr ''usps''),
      ((''DATASET'', ''WEIGHT_TYPE''), CStr ''natural''),
      ((''DATASET'', ''SIZE_TYPE''), CStr ''source''),
      ((''DATASET'', ''VALID_SPLIT_RATIO''), CFloat (1 / 10)),
      ((''SOLVER'', ''SEED''), CInt 2020),
      ((''SOLVER'', ''MIN_EPOCHS''), CInt 20),
      ((''SOLVER'', ''MAX_EPOCHS''), CInt 120),
      ((''OUTPUT'', ''TB_DIR''), CStr ''tb_logs''),
      ((''OUTPUT'', ''PB_FRESH''), CInt 50)]"

definition dann_yaml :: centries where
  "dann_yaml = [((''SOLVER'', ''MIN_EPOCHS''), CInt 0), ((''SOLVER'', ''MAX_EPOCHS''), CInt 2)]"

definition dann_cfg :: centries where
  "dann_cfg =
     [((''DATASET'', ''ROOT''), CStr ''../data''),
      ((''DATASET'', ''SOURCE''), CStr ''mnist''),
      ((''DATASET'', ''TARGET''), CStr ''usps''),
      ((''DATASET'', ''WEIGHT_TYPE''), CStr ''natural''),
      ((''DATASET'', ''SIZE_TYPE''), CStr ''source''),
      ((''DATASET'', ''VALID_SPLIT_RATIO''), CFloat (1 / 10)),
      ((''SOLVER'', ''SEED''), CInt 2020),
      ((''SOLVER'', ''MIN_EPOCHS''), CInt 0),
      ((''SOLVER'', ''MAX_EPOCHS''), CInt 2),
      ((''OUTPUT'', ''TB_DIR''), CStr ''tb_logs''),
      ((''OUTPUT'', ''PB_FRESH''), CInt 50)]"

definition dann_demo_metrics :: "nat metrics" where
  "dann_demo_metrics =
     [(''test_domain_acc'', 50), (''test_source_acc'', 90), (''test_target_acc'', 60), (''test_loss'', 1)]"

definition dann_demo_env :: "nat env" where
  "dann_demo_env =
     demo_env\<lparr>get_cfg_defaults := dann_defaults,
       merge_from_file := (\<lambda>d p. if p = ''./configs/tutorial.yaml'' then Inr (demo_merge dann_yaml d)
                                else Inl (FrameworkError ''FileNotFoundError'')),
       test := (\<lambda>t r l g. (Inr dann_demo_metrics, Suc g))\<rparr>"

definition dann_demo_trainer :: trainer where
  "dann_demo_trainer =
     \<lparr>min_epochs = CInt 0, max_epochs = CInt 2, gpus = None,
      logger = \<lparr>save_dir = CStr ''tb_logs'', name = CStr ''seed2020''\<rparr>,
      callbacks = [ModelCheckpoint (Some ''{epoch}-{step}-{valid_loss:.4f}'') ''valid_loss'' ''min'',
                   TQDMProgressBar (CInt 50)]\<rparr>"

definition dann_demo_trace :: "nat event list" where
  "dann_demo_trace =
     [GetIPython, Print ''Not running on CoLab''] @ map Import dann_imports @
     [GetCfgDefaults, MergeFromFile ''./configs/tutorial.yaml'', Freeze, PrintCfg dann_cfg,
      CudaIsAvailable, Print ''Using: cpu'',
      CfgRead (''DATASET'', ''SOURCE'') (CStr ''mnist''), NewDigitDataset ''MNIST'',
      CfgRead (''DATASET'', ''TARGET'') (CStr ''usps''), NewDigitDataset ''USPS'',
      CfgRead (''DATASET'', ''ROOT'') (CStr ''../data''), GetSourceTarget (CStr ''../data''),
      CfgRead (''DATASET'', ''WEIGHT_TYPE'') (CStr ''natural''),
      CfgRead (''DATASET'', ''SIZE_TYPE'') (CStr ''source''),
      CfgRead (''DATASET'', ''VALID_SPLIT_RATIO'') (CFloat (1 / 10)),
      NewMultiDomainDatasets (CStr ''natural'') (CStr ''source'') (CFloat (1 / 10)) [1, 3, 8],
      CfgRead (''SOLVER'', ''SEED'') (CInt 2020), SetSeed (CInt 2020),
      GetModel,
      CfgRead (''OUTPUT'', ''TB_DIR'') (CStr ''tb_logs''),
      NewTensorBoardLogger \<lparr>save_dir = CStr ''tb_logs'', name = CStr ''seed2020''\<rparr>,
      NewCallback (ModelCheckpoint (Some ''{epoch}-{step}-{valid_loss:.4f}'') ''valid_loss'' ''min''),
      CfgRead (''OUTPUT'', ''PB_FRESH'') (CInt 50), NewCallback (TQDMProgressBar (CInt 50)),
      CfgRead (''SOLVER'', ''MIN_EPOCHS'') (CInt 0),
      CfgRead (''SOLVER'', ''MAX_EPOCHS'') (CInt 2),
      NewTrainer dann_demo_trainer,
      Fit dann_demo_trainer 101 None None,
      FitDone \<lparr>epochs_run = 2, trained = 101\<rparr>,
      Test dann_demo_trainer None]"

definition dann_demo_final :: "nat nbstate" where
  "dann_demo_final =
     \<lparr>rng = 2023, cfg = Some \<lparr>entries = dann_cfg, frozen = True\<rparr>, trace = dann_demo_trace\<rparr>"

section \<open>Properties of a statement\<close>

text \<open>
  The predicates the proofs carry through a notebook, statement by statement.
  \<open>yields C P m R\<close>: from a state whose configuration satisfies \<open>C\<close>, the statement \<open>m\<close>
  leaves one that does, appends only events that satisfy \<open>P\<close> (or record a raise), and
  returns only values that satisfy \<open>R\<close>.
\<close>

definition yields ::
  "(cfgnode option \<Rightarrow> bool) \<Rightarrow> ('o event \<Rightarrow> bool) \<Rightarrow> ('o, 'a) nb \<Rightarrow> ('a \<Rightarrow> bool) \<Rightarrow> bool" where
  "yields C P m R =
     (\<forall>s. C (cfg s) \<longrightarrow>
        (case m s of (r, s') \<Rightarrow>
           C (cfg s') \<and>
           (\<exists>evs. trace s' = trace s @ evs \<and> (\<forall>ev \<in> set evs. is_raise ev \<or> P ev)) \<and>
           (\<forall>a. r = Inr a \<longrightarrow> R a)))"

text \<open>
  A numbering \<open>st\<close> of some events by positions \<open>1, 2, ...\<close> is walked in order when every
  numbered event is at the position reached or at the next one; a position in \<open>once\<close>
  is taken by one event only. \<open>pos\<close> is the position reached at the end of a trace, if
  it is walked in order; \<open>walks st once i j m\<close>: the statement \<open>m\<close> walks from \<open>i\<close> to \<open>j\<close>
  when it returns and to some position up to \<open>j\<close> when it raises.
\<close>

fun stage_no :: "stage \<Rightarrow> nat" where
  "stage_no EnvCheck = 1"
| "stage_no ConfigLoad = 2"
| "stage_no DatasetBuild = 3"
| "stage_no ModelBuild = 4"
| "stage_no TrainerSetup = 5"
| "stage_no FitCall = 6"
| "stage_no TestCall = 7"

definition step :: "('o event \<Rightarrow> nat option) \<Rightarrow> (nat \<Rightarrow> bool) \<Rightarrow> nat \<Rightarrow> 'o event \<Rightarrow> nat option" where
  "step st once i ev =
     (case st ev of None \<Rightarrow> Some i
      | Some k \<Rightarrow> if k = Suc i then Some k else if k = i \<and> \<not> once k then Some i else None)"

fun pos :: "('o event \<Rightarrow> nat option) \<Rightarrow> (nat \<Rightarrow> bool) \<Rightarrow> nat \<Rightarrow> 'o event list \<Rightarrow> nat option" where
  "pos st once i [] = Some i"
| "pos st once i (ev # evs) = (case step st once i ev of None \<Rightarrow> None | Some j \<Rightarrow> pos st once j evs)"

definition walks ::
  "('o event \<Rightarrow> nat option) \<Rightarrow> (nat \<Rightarrow> bool) \<Rightarrow> nat \<Rightarrow> nat \<Rightarrow> ('o, 'a) nb \<Rightarrow> bool" where
  "walks st once i j m =
     (\<forall>s. case m s of (r, s') \<Rightarrow>
        (\<exists>evs. trace s' = trace s @ evs \<and>
           (case r of Inr a \<Rightarrow> pos st once i evs = Some j
            | Inl e \<Rightarrow> \<exists>k \<le> j. pos st once i evs = Some k)))"

definition nums :: "('o event \<Rightarrow> nat option) \<Rightarrow> 'o event list \<Rightarrow> nat list" where
  "nums st evs = List.map_filter st evs"

text \<open>
  The numbering of the stages, \<^verbatim>\<open>fit\<close> and \<^verbatim>\<open>test\<close> being called once; \<^verbatim>\<open>set_seed\<close> before
  \<^verbatim>\<open>torch.randperm\<close>; the dataset construction of the DANN notebook before \<^verbatim>\<open>set_seed\<close>.
\<close>

definition st1 :: "'o event \<Rightarrow> nat option" where
  "st1 ev = map_option stage_no (stage_of ev)"


definition seed_then_sample :: "'o event \<Rightarrow> nat option" where
  "seed_then_sample ev = (case ev of SetSeed _ \<Rightarrow> Some 1 | Randperm _ \<Rightarrow> Some 2 | _ \<Rightarrow> None)"

definition data_then_seed :: "'o event \<Rightarrow> nat option" where
  "data_then_seed ev =
     (case ev of NewDigitDataset _ \<Rightarrow> Some 1 | GetSourceTarget _ \<Rightarrow> Some 1
      | NewMultiDomainDatasets _ _ _ _ \<Rightarrow> Some 1 | SetSeed _ \<Rightarrow> Some 2 | _ \<Rightarrow> None)"


text \<open>
  Two states that differ in the random generator at most; a statement that does not
  look at the generator; a statement that returns in one state whatever the state of
  the generator it started in.
\<close>

definition same_but_rng :: "'o nbstate \<Rightarrow> 'o nbstate \<Rightarrow> bool" where
  "same_but_rng s t = (cfg s = cfg t \<and> trace s = trace t)"

definition blind :: "('o, 'a) nb \<Rightarrow> bool" where
  "blind m =
     (\<forall>s t. same_but_rng s t \<longrightarrow>
        fst (m s) = fst (m t) \<and> same_but_rng (snd (m s)) (snd (m t)))"

definition seeds :: "('o, 'a) nb \<Rightarrow> bool" where
  "seeds m =
     (\<forall>s t. same_but_rng s t \<longrightarrow>
        fst (m s) = fst (m t) \<and> same_but_rng (snd (m s)) (snd (m t)) \<and>
        ((\<exists>a. fst (m s) = Inr a) \<longrightarrow> snd (m s) = snd (m t)))"

text \<open>
  \<open>ends_in_test m\<close>: where the statement \<open>m\<close> returns, the last event is a call of
  \<^verbatim>\<open>trainer.test\<close>.
\<close>

definition ends_in_test :: "('o, 'a) nb \<Rightarrow> bool" where
  "ends_in_test m =
     (\<forall>s a s'. m s = (Inr a, s') \<longrightarrow> (\<exists>pre t l. trace s' = pre @ [Test t l]))"

text \<open>
  What the events of a run are checked against: the keys read; the \<^verbatim>\<open>gpus\<close> argument
  and the device printed; the values read from the frozen configuration; the epoch
  bounds of the trainer; the subsets handed on.
\<close>

definition reads_only :: "(ckey \<Rightarrow> bool) \<Rightarrow> 'o event \<Rightarrow> bool" where
  "reads_only K ev = (case ev of CfgRead k v \<Rightarrow> K k | _ \<Rightarrow> True)"


definition frozen_ok :: "centries \<Rightarrow> 'o event \<Rightarrow> bool" where
  "frozen_ok m0 ev =
     (\<not> cfg_write ev \<and> (case ev of CfgRead k v \<Rightarrow> map_of m0 k = Some v | _ \<Rightarrow> True))"



definition sampling_ok :: "'o env \<Rightarrow> 'o event \<Rightarrow> bool" where
  "sampling_ok env ev =
     (case ev of
        NewSubset sub \<Rightarrow> sampled_split env sub
      | NewDataLoader l \<Rightarrow> sampled_split env (dataset l)
      | Fit t m a b \<Rightarrow>
          (\<exists>l1 l2. a = Some l1 \<and> b = Some l2 \<and>
             sampled env ''train'' train_subset_size (dataset l1) \<and>
             sampled env ''valid'' valid_subset_size (dataset l2))
      | Test t l \<Rightarrow> (\<exists>l3. l = Some l3 \<and> sampled env ''test'' test_subset_size (dataset l3))
      | _ \<Rightarrow> True)"

section \<open>Events and values of a statement\<close>

lemma is_raise_Raise [simp]: "is_raise (Raise e)" by (simp add: is_raise_def)

lemma y_ret: "yields C P (ret a) (\<lambda>x. x = a)"
  by (simp add: yields_def ret_def)

lemma y_emit: "P ev \<Longrightarrow> yields C P (emit ev) (\<lambda>_. True)"
  by (simp add: yields_def emit_def)

lemma y_throw: "yields C P (throw e) (\<lambda>_. False)"
  by (simp add: yields_def throw_def)

lemma y_andthen:
  assumes "yields C P m R" and "\<And>a. R a \<Longrightarrow> yields C P (f a) (R2 a)"
  shows "yields C P (andthen m f) (\<lambda>b. \<exists>a. R a \<and> R2 a b)"
  unfolding yields_def
proof (intro allI impI)
  fix s :: "'a nbstate" assume c: "C (cfg s)"
  obtain r s1 where ms: "m s = (r, s1)" by (cases "m s")
  from assms(1) c ms obtain evs1 where 1: "C (cfg s1)" "trace s1 = trace s @ evs1"
      "\<forall>ev \<in> set evs1. is_raise ev \<or> P ev" "\<forall>a. r = Inr a \<longrightarrow> R a"
    by (auto simp: yields_def)
  show "case andthen m f s of (r, s') \<Rightarrow> C (cfg s') \<and>
           (\<exists>evs. trace s' = trace s @ evs \<and> (\<forall>ev \<in> set evs. is_raise ev \<or> P ev)) \<and>
           (\<forall>a. r = Inr a \<longrightarrow> (\<exists>a'. R a' \<and> R2 a' a))"
  proof (cases r)
    case (Inl e)
    with ms 1 show ?thesis by (simp add: andthen_def)
  next
    case (Inr a)
    with 1 have ra: "R a" by simp
    obtain r2 s2 where fs: "f a s1 = (r2, s2)" by (cases "f a s1")
    from assms(2)[OF ra] 1(1) fs obtain evs2 where 2: "C (cfg s2)" "trace s2 = trace s1 @ evs2"
      "\<forall>ev \<in> set evs2. is_raise ev \<or> P ev" "\<forall>b. r2 = Inr b \<longrightarrow> R2 a b"
      by (auto simp: yields_def)
    from ms Inr fs have "andthen m f s = (r2, s2)" by (simp add: andthen_def)
    with 1 2 ra show ?thesis by auto
  qed
qed

lemma y_weaken: "yields C P m R \<Longrightarrow> (\<And>a. R a \<Longrightarrow> R' a) \<Longrightarrow> yields C P m R'"
  by (fastforce simp: yields_def split: prod.splits)

lemma y_outcome: "yields C P (outcome r) (\<lambda>a. r = Inr a)"
  by (cases r) (simp_all add: outcome_def yields_def throw_def ret_def)

lemma y_call: "P ev \<Longrightarrow> yields C P (call ev r) (\<lambda>a. r = Inr a)"
  unfolding call_def by (rule y_weaken, rule y_andthen, erule y_emit, rule y_outcome, simp)

lemma y_call_rng: "P ev \<Longrightarrow> yields C P (call_rng ev f) (\<lambda>a. \<exists>g g'. f g = (Inr a, g'))"
  by (auto simp: yields_def call_rng_def andthen_def emit_def outcome_def throw_def ret_def
        split: prod.splits sum.splits)

lemma y_the_cfg: "yields C P the_cfg (\<lambda>c. C (Some c))"
  by (auto simp: yields_def the_cfg_def throw_def ret_def split: option.splits)

lemma y_set_cfg: "C (Some c) \<Longrightarrow> yields C P (set_cfg c) (\<lambda>_. True)"
  by (simp add: yields_def set_cfg_def)

lemma y_case_prod:
  "(\<And>a b. p = (a, b) \<Longrightarrow> yields C P (f a b) (R2 a b)) \<Longrightarrow>
   yields C P (case p of (a, b) \<Rightarrow> f a b) (\<lambda>x. \<exists>a b. p = (a, b) \<and> R2 a b x)"
  by (cases p) (auto elim: y_weaken)

lemma y_if:
  "(c \<Longrightarrow> yields C P m R1) \<Longrightarrow> (\<not> c \<Longrightarrow> yields C P n R2) \<Longrightarrow>
   yields C P (if c then m else n) (\<lambda>x. if c then R1 x else R2 x)"
  by simp

lemma y_shell_all: "(\<And>c. P (Shell c)) \<Longrightarrow> yields C P (shell_all cs) (\<lambda>_. True)"
proof (induction cs)
  case Nil
  show ?case by (simp, rule y_weaken, rule y_ret, simp)
next
  case (Cons c cs)
  show ?case by (simp, rule y_weaken, rule y_andthen, rule y_emit, rule Cons, rule Cons.IH, rule Cons, simp)
qed

lemma y_import_all: "(\<And>m. P (Import m)) \<Longrightarrow> yields C P (import_all env ms) (\<lambda>_. True)"
proof (induction ms)
  case Nil
  show ?case by (simp, rule y_weaken, rule y_ret, simp)
next
  case (Cons c cs)
  show ?case by (simp, rule y_weaken, rule y_andthen, rule y_call, rule Cons, rule Cons.IH, rule Cons, simp)
qed

lemma y_cfg_get:
  assumes "\<And>c v. C (Some c) \<Longrightarrow> map_of (entries c) k = Some v \<Longrightarrow> P (CfgRead k v)"
  shows "yields C P (cfg_get k) (\<lambda>v. \<exists>c. C (Some c) \<and> map_of (entries c) k = Some v)"
  using assms
  by (auto simp: yields_def cfg_get_def the_cfg_def andthen_def emit_def throw_def ret_def
        split: option.splits)

lemmas y_rules = y_ret y_emit y_throw y_andthen y_outcome y_call y_call_rng y_the_cfg y_set_cfg
  y_case_prod y_if y_shell_all y_import_all y_cfg_get

lemmas op_defs = check_colab_def cfg_defaults_def cfg_merge_from_file_def cfg_freeze_def cfg_print_def
  load_config_def prologue_def seed_generator_def check_gpu_def new_loader_def new_trainer_def
  new_logger_def new_callback_def trainer_fit_def trainer_test_def

lemmas deepdta_defs = load_split_def
  sample_indices_def new_subset_def deepdta_select_datasets_def deepdta_show_path_def
  deepdta_loaders_def deepdta_model_def deepdta_logger_def deepdta_trainer_def
  deepdta_frozen_def deepdta_notebook_def

section \<open>Order of the events of a statement\<close>

lemma pos_append:
  "pos st once i (a @ b) = (case pos st once i a of None \<Rightarrow> None | Some k \<Rightarrow> pos st once k b)"
  by (induction a arbitrary: i) (auto split: option.splits)

lemma step_mono: "step st once i ev = Some j \<Longrightarrow> i \<le> j"
  by (auto simp: step_def split: option.splits if_splits)

lemma pos_mono: "pos st once i evs = Some j \<Longrightarrow> i \<le> j"
proof (induction evs arbitrary: i)
  case Nil then show ?case by simp
next
  case (Cons ev evs)
  then show ?case by (auto split: option.splits dest!: step_mono) (meson le_trans)
qed

lemma w_ret: "walks st once i i (ret a)"
  by (simp add: walks_def ret_def)

lemma w_emit: "step st once i ev = Some j \<Longrightarrow> walks st once i j (emit ev)"
  by (simp add: walks_def emit_def)

lemma w_throw: "st (Raise e) = None \<Longrightarrow> walks st once i i (throw e)"
  by (simp add: walks_def throw_def step_def)

lemma walksD:
  "walks st once i j m \<Longrightarrow> m s = (r, s') \<Longrightarrow>
   \<exists>evs. trace s' = trace s @ evs \<and>
     (case r of Inr a \<Rightarrow> pos st once i evs = Some j | Inl e \<Rightarrow> \<exists>k \<le> j. pos st once i evs = Some k)"
  unfolding walks_def by (erule allE[of _ s]) simp

lemma walks_le:
  assumes "walks st once i j m"
  shows "i \<le> j"
proof -
  obtain r s' where "m undefined = (r, s')" by (cases "m undefined")
  from walksD[OF assms this] show ?thesis
    by (cases r) (auto dest: pos_mono intro: le_trans)
qed

lemma w_andthen:
  assumes "walks st once i k m" and "\<And>a. walks st once k j (f a)"
  shows "walks st once i j (andthen m f)"
  unfolding walks_def
proof (intro allI)
  fix s :: "'a nbstate"
  obtain r s1 where ms: "m s = (r, s1)" by (cases "m s")
  from walksD[OF assms(1) ms] obtain evs1 where 1: "trace s1 = trace s @ evs1"
    "case r of Inr a \<Rightarrow> pos st once i evs1 = Some k | Inl e \<Rightarrow> \<exists>k' \<le> k. pos st once i evs1 = Some k'"
    by blast
  have kj: "k \<le> j" using assms(2) by (rule walks_le)
  show "case andthen m f s of (r, s') \<Rightarrow>
        (\<exists>evs. trace s' = trace s @ evs \<and>
           (case r of Inr a \<Rightarrow> pos st once i evs = Some j
            | Inl e \<Rightarrow> \<exists>k \<le> j. pos st once i evs = Some k))"
  proof (cases r)
    case (Inl e)
    with ms have "andthen m f s = (Inl e, s1)" by (simp add: andthen_def)
    with 1 Inl kj show ?thesis by (auto intro: le_trans)
  next
    case (Inr a)
    obtain r2 s2 where fs: "f a s1 = (r2, s2)" by (cases "f a s1")
    from walksD[OF assms(2) fs] obtain evs2 where 2: "trace s2 = trace s1 @ evs2"
      "case r2 of Inr b \<Rightarrow> pos st once k evs2 = Some j | Inl e \<Rightarrow> \<exists>k' \<le> j. pos st once k evs2 = Some k'"
      by blast
    from ms Inr fs have "andthen m f s = (r2, s2)" by (simp add: andthen_def)
    with 1 2 Inr show ?thesis by (auto simp: pos_append split: sum.splits)
  qed
qed

lemma w_outcome: "(\<And>e. st (Raise e) = None) \<Longrightarrow> walks st once i i (outcome r)"
  by (cases r) (simp_all add: outcome_def w_throw w_ret)

lemma w_call:
  "(\<And>e. st (Raise e) = None) \<Longrightarrow> step st once i ev = Some j \<Longrightarrow> walks st once i j (call ev r)"
  unfolding call_def by (rule w_andthen, erule w_emit, rule w_outcome)

lemma w_call_rng:
  "(\<And>e. st (Raise e) = None) \<Longrightarrow> step st once i ev = Some j \<Longrightarrow> walks st once i j (call_rng ev f)"
  by (auto simp: walks_def call_rng_def andthen_def emit_def outcome_def throw_def ret_def step_def
        split: prod.splits sum.splits)

lemma w_the_cfg: "(\<And>e. st (Raise e) = None) \<Longrightarrow> walks st once i i the_cfg"
  by (auto simp: walks_def the_cfg_def throw_def ret_def step_def split: option.splits)

lemma w_set_cfg: "walks st once i i (set_cfg c)"
  by (simp add: walks_def set_cfg_def)

lemma w_case_prod:
  "(\<And>a b. walks st once i j (f a b)) \<Longrightarrow> walks st once i j (case p of (a, b) \<Rightarrow> f a b)"
  by (cases p) simp

lemma w_if:
  "walks st once i j m \<Longrightarrow> walks st once i j n \<Longrightarrow> walks st once i j (if c then m else n)"
  by simp

lemma w_shell_all: "(\<And>c. step st once i (Shell c) = Some i) \<Longrightarrow> walks st once i i (shell_all cs)"
  by (induction cs) (auto intro: w_ret w_andthen w_emit)

lemma w_import_all:
  "(\<And>e. st (Raise e) = None) \<Longrightarrow> (\<And>m. step st once i (Import m) = Some i) \<Longrightarrow>
   walks st once i i (import_all env ms)"
  by (induction ms) (auto intro: w_ret w_andthen w_call)

lemma w_cfg_get:
  "(\<And>e. st (Raise e) = None) \<Longrightarrow> (\<And>v. step st once i (CfgRead k v) = Some i) \<Longrightarrow>
   walks st once i i (cfg_get k)"
  by (auto simp: walks_def cfg_get_def the_cfg_def andthen_def emit_def throw_def ret_def step_def
        split: option.splits)

lemmas w_rules = w_ret w_emit w_throw w_andthen w_outcome w_call w_call_rng w_the_cfg w_set_cfg
  w_case_prod w_if w_shell_all w_import_all w_cfg_get

lemma st1_simps [simp]:
  "st1 GetIPython = Some 1" "st1 (Shell c) = Some 1"
  "st1 GetCfgDefaults = Some 2" "st1 (MergeFromFile p) = Some 2" "st1 Freeze = Some 2" "st1 (PrintCfg ce) = Some 2"
  "st1 (NewBindingDBDataset n s q) = Some 3" "st1 (Randperm k) = Some 3" "st1 (NewSubset d) = Some 3"
  "st1 (NewDataLoader l) = Some 3" "st1 (NewDigitDataset n') = Some 3" "st1 (GetSourceTarget rt) = Some 3"
  "st1 (NewMultiDomainDatasets w sz ra cl) = Some 3" "st1 GetModel = Some 4"
  "st1 (NewTensorBoardLogger lg) = Some 5" "st1 (NewCallback cb) = Some 5" "st1 (NewTrainer t) = Some 5"
  "st1 (Fit t mo a b) = Some 6" "st1 (Test t lo) = Some 7"
  "st1 (Print x) = None" "st1 (Import x) = None" "st1 (CfgRead ck cv) = None" "st1 (SetSeed cv) = None"
  "st1 CudaIsAvailable = None" "st1 (Display cv) = None" "st1 (FitDone fr) = None" "st1 (Raise e) = None"
  by (simp_all add: st1_def)

section \<open>Raises of a statement\<close>


















lemmas dann_defs = digit_dataset_def dann_select_datasets_def dann_model_def dann_logger_def
  dann_trainer_def dann_frozen_def dann_notebook_def



lemma w_upper: "(\<And>e. st (Raise e) = None) \<Longrightarrow> walks st once i i (upper v)"
  by (cases v) (simp_all add: upper_def w_ret w_throw)

section \<open>Statements and the random generator\<close>

lemma blindD:
  "blind m \<Longrightarrow> same_but_rng s t \<Longrightarrow> m s = (r, s1) \<Longrightarrow> m t = (r', t1) \<Longrightarrow>
   r = r' \<and> same_but_rng s1 t1"
  unfolding blind_def by (erule allE[of _ s], erule allE[of _ t]) simp

lemma seedsD:
  "seeds m \<Longrightarrow> same_but_rng s t \<Longrightarrow> m s = (r, s1) \<Longrightarrow> m t = (r', t1) \<Longrightarrow>
   r = r' \<and> same_but_rng s1 t1 \<and> ((\<exists>a. r = Inr a) \<longrightarrow> s1 = t1)"
  unfolding seeds_def by (erule allE[of _ s], erule allE[of _ t]) simp

lemma b_ret: "blind (ret a)"
  by (simp add: blind_def ret_def)

lemma b_emit: "blind (emit ev)"
  by (simp add: blind_def emit_def same_but_rng_def)

lemma b_throw: "blind (throw e)"
  by (simp add: blind_def throw_def same_but_rng_def)

lemma b_andthen:
  assumes "blind m" and "\<And>a. blind (f a)"
  shows "blind (andthen m f)"
  unfolding blind_def
proof (intro allI impI)
  fix s t :: "'a nbstate"
  assume st: "same_but_rng s t"
  obtain r s1 where ms: "m s = (r, s1)" by (cases "m s")
  obtain r' t1 where mt: "m t = (r', t1)" by (cases "m t")
  from blindD[OF assms(1) st ms mt] have 1: "r = r'" "same_but_rng s1 t1"
    by simp_all
  show "fst (andthen m f s) = fst (andthen m f t) \<and>
        same_but_rng (snd (andthen m f s)) (snd (andthen m f t))"
  proof (cases r)
    case (Inl e)
    with ms mt 1 show ?thesis by (auto simp: andthen_def)
  next
    case (Inr a)
    from assms(2)[of a] 1(2) have "fst (f a s1) = fst (f a t1) \<and>
        same_but_rng (snd (f a s1)) (snd (f a t1))"
      by (simp add: blind_def)
    with ms mt 1 Inr show ?thesis by (auto simp: andthen_def)
  qed
qed

lemma b_outcome: "blind (outcome r)"
  by (cases r) (simp_all add: outcome_def b_throw b_ret)

lemma b_call: "blind (call ev r)"
  unfolding call_def by (rule b_andthen, rule b_emit, rule b_outcome)

lemma b_the_cfg: "blind the_cfg"
  by (auto simp: blind_def the_cfg_def throw_def ret_def same_but_rng_def split: option.splits)

lemma b_set_cfg: "blind (set_cfg c)"
  by (simp add: blind_def set_cfg_def same_but_rng_def)

lemma b_if: "blind m \<Longrightarrow> blind n \<Longrightarrow> blind (if c then m else n)"
  by simp

lemma b_case_option:
  "blind m \<Longrightarrow> (\<And>v. blind (f v)) \<Longrightarrow> blind (case x of None \<Rightarrow> m | Some v \<Rightarrow> f v)"
  by (cases x) simp_all

lemma b_shell_all: "blind (shell_all cs)"
proof (induction cs)
  case Nil
  show ?case by (simp add: b_ret)
next
  case (Cons c cs)
  show ?case unfolding shell_all.simps by (rule b_andthen, rule b_emit, rule Cons.IH)
qed

lemma b_import_all: "blind (import_all env ms)"
proof (induction ms)
  case Nil
  show ?case by (simp add: b_ret)
next
  case (Cons c cs)
  show ?case unfolding import_all.simps by (rule b_andthen, rule b_call, rule Cons.IH)
qed

lemmas b_rules = b_ret b_emit b_throw b_andthen b_outcome b_call b_the_cfg b_set_cfg b_if
  b_case_option b_shell_all b_import_all

lemma s_seed_generator: "seeds (seed_generator env v)"
  by (cases "set_seed env v")
     (auto simp: seeds_def seed_generator_def call_rng_def andthen_def emit_def outcome_def
        throw_def ret_def same_but_rng_def nbstate.equality)

lemma s_andthen_blind:
  assumes "blind m" and "\<And>a. seeds (f a)"
  shows "seeds (andthen m f)"
  unfolding seeds_def
proof (intro allI impI)
  fix s t :: "'a nbstate"
  assume st: "same_but_rng s t"
  obtain r s1 where ms: "m s = (r, s1)" by (cases "m s")
  obtain r' t1 where mt: "m t = (r', t1)" by (cases "m t")
  from blindD[OF assms(1) st ms mt] have 1: "r = r'" "same_but_rng s1 t1"
    by simp_all
  show "fst (andthen m f s) = fst (andthen m f t) \<and>
        same_but_rng (snd (andthen m f s)) (snd (andthen m f t)) \<and>
        ((\<exists>a. fst (andthen m f s) = Inr a) \<longrightarrow> snd (andthen m f s) = snd (andthen m f t))"
  proof (cases r)
    case (Inl e)
    with ms mt 1 show ?thesis by (auto simp: andthen_def)
  next
    case (Inr a)
    from assms(2)[of a] 1(2) have "fst (f a s1) = fst (f a t1) \<and>
        same_but_rng (snd (f a s1)) (snd (f a t1)) \<and>
        ((\<exists>b. fst (f a s1) = Inr b) \<longrightarrow> snd (f a s1) = snd (f a t1))"
      by (simp add: seeds_def)
    with ms mt 1 Inr show ?thesis by (auto simp: andthen_def)
  qed
qed

lemma s_andthen:
  assumes "seeds m"
  shows "seeds (andthen m f)"
  unfolding seeds_def
proof (intro allI impI)
  fix s t :: "'a nbstate"
  assume st: "same_but_rng s t"
  obtain r s1 where ms: "m s = (r, s1)" by (cases "m s")
  obtain r' t1 where mt: "m t = (r', t1)" by (cases "m t")
  from seedsD[OF assms st ms mt] have 1: "r = r'" "same_but_rng s1 t1" "(\<exists>a. r = Inr a) \<longrightarrow> s1 = t1"
    by simp_all
  show "fst (andthen m f s) = fst (andthen m f t) \<and>
        same_but_rng (snd (andthen m f s)) (snd (andthen m f t)) \<and>
        ((\<exists>a. fst (andthen m f s) = Inr a) \<longrightarrow> snd (andthen m f s) = snd (andthen m f t))"
  proof (cases r)
    case (Inl e)
    with ms mt 1 show ?thesis by (auto simp: andthen_def)
  next
    case (Inr a)
    with 1 have "s1 = t1" by auto
    with ms mt 1 Inr show ?thesis by (auto simp: andthen_def same_but_rng_def)
  qed
qed

lemmas nb_defs = ret_def andthen_def emit_def throw_def outcome_def call_def call_rng_def checked_def
  the_cfg_def set_cfg_def

lemmas demo_defs = demo_env_def demo_defaults_def demo_yaml_def demo_merge_def demo_fit_def

lemmas run_defs = init_state_def deepdta_defs dann_defs op_defs cfg_get_def upper_def upper_char_def
  nb_defs deepdta_setup_def deepdta_imports_def dann_setup_def dann_imports_def cfg_path_def Let_def
  train_subset_size_def valid_subset_size_def test_subset_size_def

section \<open>Runs of a notebook\<close>

lemma yieldsD:
  "yields C P m R \<Longrightarrow> C (cfg s) \<Longrightarrow> m s = (r, s') \<Longrightarrow>
   C (cfg s') \<and> (\<exists>evs. trace s' = trace s @ evs \<and> (\<forall>ev \<in> set evs. is_raise ev \<or> P ev)) \<and>
   (\<forall>a. r = Inr a \<longrightarrow> R a)"
  unfolding yields_def by (erule allE[of _ s]) simp

lemma yields_run:
  assumes "yields (\<lambda>_. True) P m R" and "m (init_state g) = (r, s')"
  shows "(\<forall>ev \<in> set (trace s'). is_raise ev \<or> P ev) \<and> (\<forall>a. r = Inr a \<longrightarrow> R a)"
  using yieldsD[OF assms(1) _ assms(2)] by (auto simp: init_state_def)




lemma y_seq:
  assumes "yields C P m R" and "yields C P n R2"
  shows "yields C P (andthen m (\<lambda>_. n)) R2"
  by (rule y_weaken, rule y_andthen, rule assms(1), rule assms(2)) blast


lemma y_upper: "yields C P (upper v) (\<lambda>n. \<exists>x. v = CStr x \<and> n = map upper_char x)"
  by (cases v) (auto simp: upper_def yields_def ret_def throw_def)


lemma deepdta_reads: "yields (\<lambda>_. True) (reads_only spec_recognized_key) (deepdta_notebook env) (\<lambda>_. True)"
  unfolding deepdta_defs op_defs Let_def
  by (rule y_weaken, (rule y_seq y_rules | (simp (no_asm) add: reads_only_def spec_recognized_key_def; fail) | (simp add: reads_only_def spec_recognized_key_def; fail))+)

lemma dann_reads:
  "yields (\<lambda>_. True) (reads_only (\<lambda>k. spec_recognized_key k \<or> k \<in> set dann_other_keys))
     (dann_notebook env) (\<lambda>_. True)"
  unfolding dann_defs op_defs Let_def
  by (rule y_weaken, (rule y_seq y_rules y_upper | (simp (no_asm) add: reads_only_def spec_recognized_key_def dann_other_keys_def; fail) | (simp add: reads_only_def spec_recognized_key_def dann_other_keys_def; fail))+)



lemma nums_simps [simp]:
  "nums st [] = []"
  "nums st (ev # evs) = (case st ev of None \<Rightarrow> nums st evs | Some k \<Rightarrow> k # nums st evs)"
  by (simp_all add: nums_def map_filter_simps split: option.splits)

section \<open>Stages of a run\<close>


lemma pos_no_more:
  "pos st once i evs = Some j \<Longrightarrow> k < i \<or> (k = i \<and> once k) \<Longrightarrow>
   filter (\<lambda>ev. st ev = Some k) evs = []"
proof (induction evs arbitrary: i)
  case Nil
  then show ?case by simp
next
  case (Cons ev evs)
  from Cons.prems(1) obtain i' where s: "step st once i ev = Some i'" and p: "pos st once i' evs = Some j"
    by (auto split: option.splits)
  from s have ii: "i \<le> i'" by (rule step_mono)
  from s Cons.prems(2) have ne: "st ev \<noteq> Some k"
    by (auto simp: step_def split: option.splits if_splits)
  from s Cons.prems(2) ii have "k < i' \<or> (k = i' \<and> once k)"
    by (auto simp: step_def split: option.splits if_splits)
  from Cons.IH[OF p this] ne show ?case by simp
qed


lemma pos_passed:
  "pos st once i evs = Some j \<Longrightarrow> i < k \<Longrightarrow> k \<le> j \<Longrightarrow> \<exists>ev \<in> set evs. st ev = Some k"
proof (induction evs arbitrary: i)
  case Nil
  then show ?case by simp
next
  case (Cons ev evs)
  from Cons.prems(1) obtain i' where s: "step st once i ev = Some i'" and p: "pos st once i' evs = Some j"
    by (auto split: option.splits)
  show ?case
  proof (cases "st ev = Some k")
    case True
    then show ?thesis by simp
  next
    case False
    with s Cons.prems have "i' < k"
      by (auto simp: step_def split: option.splits if_splits)
    from Cons.IH[OF p this Cons.prems(3)] show ?thesis by simp
  qed
qed

lemma pos_behind:
  "pos st once i evs = Some j \<Longrightarrow> k < i \<Longrightarrow> \<forall>ev \<in> set evs. st ev \<noteq> Some k"
  using pos_no_more[of st once i evs j k] by (auto simp: filter_empty_conv)

lemma walks_run:
  assumes "walks st once 0 j m" and "m (init_state g) = (r, s')"
  shows "\<exists>k \<le> j. pos st once 0 (trace s') = Some k \<and> ((\<exists>a. r = Inr a) \<longrightarrow> k = j)"
  using walksD[OF assms] by (cases r) (auto simp: init_state_def)










section \<open>The configuration of a run\<close>

lemma load_config_run:
  "load_config env s =
     (case merge_from_file env (get_cfg_defaults env) cfg_path of
        Inl e \<Rightarrow> (Inl e, s\<lparr>cfg := Some \<lparr>entries = get_cfg_defaults env, frozen = False\<rparr>,
                            trace := trace s @ [GetCfgDefaults, MergeFromFile cfg_path, Raise e]\<rparr>)
      | Inr m0 \<Rightarrow> (Inr (), s\<lparr>cfg := Some \<lparr>entries = m0, frozen = True\<rparr>,
                             trace := trace s @ [GetCfgDefaults, MergeFromFile cfg_path, Freeze]\<rparr>))"
  by (cases "merge_from_file env (get_cfg_defaults env) cfg_path")
     (simp_all add: load_config_def cfg_defaults_def cfg_merge_from_file_def cfg_freeze_def nb_defs)

lemma y_setup: "yields (\<lambda>_. True) setup_event (andthen (check_colab env setup) (\<lambda>_. import_all env imports)) (\<lambda>_. True)"
  unfolding check_colab_def
  by (rule y_weaken, (rule y_seq y_rules | (simp (no_asm) add: setup_event_def; fail))+)

lemma andthen_assoc: "andthen (andthen m f) h = andthen m (\<lambda>a. andthen (f a) h)"
  by (rule ext) (simp add: andthen_def split: prod.splits sum.splits)

lemma raise_setup: "is_raise ev \<Longrightarrow> setup_event ev"
  by (cases ev) (simp_all add: is_raise_def setup_event_def)

lemma prologue_run:
  assumes "prologue env setup imports (init_state g) = (r, s)"
  shows "\<exists>pre. (\<forall>ev \<in> set pre. setup_event ev) \<and>
     ((\<exists>e. r = Inl e \<and>
           (trace s = pre \<or> trace s = pre @ [GetCfgDefaults, MergeFromFile cfg_path, Raise e])) \<or>
      (r = Inr () \<and>
       (\<exists>m0. merge_from_file env (get_cfg_defaults env) cfg_path = Inr m0 \<and>
             cfg s = Some \<lparr>entries = m0, frozen = True\<rparr> \<and>
             trace s = pre @ [GetCfgDefaults, MergeFromFile cfg_path, Freeze])))"
proof -
  let ?A = "andthen (check_colab env setup) (\<lambda>_. import_all env imports)"
  have eq: "prologue env setup imports = andthen ?A (\<lambda>_. load_config env)"
    by (simp add: prologue_def andthen_assoc)
  obtain r1 s1 where a: "?A (init_state g) = (r1, s1)" by (cases "?A (init_state g)")
  from yields_run[OF y_setup a] have pre: "\<forall>ev \<in> set (trace s1). setup_event ev"
    by (auto intro: raise_setup)
  show ?thesis
  proof (cases r1)
    case (Inl e)
    with a assms eq have "r = Inl e" "s = s1" by (simp_all add: andthen_def)
    with pre show ?thesis by (intro exI[of _ "trace s1"]) simp
  next
    case (Inr u)
    with a assms eq have l: "load_config env s1 = (r, s)" by (simp add: andthen_def)
    show ?thesis
    proof (cases "merge_from_file env (get_cfg_defaults env) cfg_path")
      case (Inl e)
      with l have "r = Inl e" "trace s = trace s1 @ [GetCfgDefaults, MergeFromFile cfg_path, Raise e]"
        by (auto simp: load_config_run)
      with pre show ?thesis by (intro exI[of _ "trace s1"]) simp
    next
      case (Inr m0)
      with l have "r = Inr ()" "trace s = trace s1 @ [GetCfgDefaults, MergeFromFile cfg_path, Freeze]"
        "cfg s = Some \<lparr>entries = m0, frozen = True\<rparr>"
        by (auto simp: load_config_run)
      with pre Inr show ?thesis by (intro exI[of _ "trace s1"]) simp
    qed
  qed
qed

lemma frozen_run:
  assumes y: "\<And>m0. yields (\<lambda>c. c = Some \<lparr>entries = m0, frozen = True\<rparr>) (P m0) rest (R m0)"
    and run: "andthen (prologue env setup imports) (\<lambda>_. rest) (init_state g) = (r, s')"
  shows "\<exists>pre. (\<forall>ev \<in> set pre. setup_event ev) \<and>
     ((\<exists>e. r = Inl e \<and>
           (trace s' = pre \<or> trace s' = pre @ [GetCfgDefaults, MergeFromFile cfg_path, Raise e])) \<or>
      (\<exists>m0 post. merge_from_file env (get_cfg_defaults env) cfg_path = Inr m0 \<and>
             cfg s' = Some \<lparr>entries = m0, frozen = True\<rparr> \<and>
             trace s' = pre @ [GetCfgDefaults, MergeFromFile cfg_path, Freeze] @ post \<and>
             (\<forall>ev \<in> set post. is_raise ev \<or> P m0 ev) \<and> (\<forall>a. r = Inr a \<longrightarrow> R m0 a)))"
proof -
  obtain r1 s1 where p: "prologue env setup imports (init_state g) = (r1, s1)"
    by (cases "prologue env setup imports (init_state g)")
  from prologue_run[OF p] obtain pre where pre: "\<forall>ev \<in> set pre. setup_event ev"
    and c: "(\<exists>e. r1 = Inl e \<and>
           (trace s1 = pre \<or> trace s1 = pre @ [GetCfgDefaults, MergeFromFile cfg_path, Raise e])) \<or>
      (r1 = Inr () \<and>
       (\<exists>m0. merge_from_file env (get_cfg_defaults env) cfg_path = Inr m0 \<and>
             cfg s1 = Some \<lparr>entries = m0, frozen = True\<rparr> \<and>
             trace s1 = pre @ [GetCfgDefaults, MergeFromFile cfg_path, Freeze]))"
    by blast
  from c show ?thesis
  proof
    assume "\<exists>e. r1 = Inl e \<and>
           (trace s1 = pre \<or> trace s1 = pre @ [GetCfgDefaults, MergeFromFile cfg_path, Raise e])"
    then obtain e where e: "r1 = Inl e"
      "trace s1 = pre \<or> trace s1 = pre @ [GetCfgDefaults, MergeFromFile cfg_path, Raise e]" by blast
    with p run have "r = Inl e" "s' = s1" by (simp_all add: andthen_def)
    with e pre show ?thesis by blast
  next
    assume "r1 = Inr () \<and>
       (\<exists>m0. merge_from_file env (get_cfg_defaults env) cfg_path = Inr m0 \<and>
             cfg s1 = Some \<lparr>entries = m0, frozen = True\<rparr> \<and>
             trace s1 = pre @ [GetCfgDefaults, MergeFromFile cfg_path, Freeze])"
    then obtain m0 where m0: "r1 = Inr ()"
      "merge_from_file env (get_cfg_defaults env) cfg_path = Inr m0"
      "cfg s1 = Some \<lparr>entries = m0, frozen = True\<rparr>"
      "trace s1 = pre @ [GetCfgDefaults, MergeFromFile cfg_path, Freeze]" by blast
    with p run have rest: "rest s1 = (r, s')" by (simp add: andthen_def)
    from yieldsD[OF y _ rest, of m0] m0(3) obtain post where
      "cfg s' = Some \<lparr>entries = m0, frozen = True\<rparr>" "trace s' = trace s1 @ post"
      "\<forall>ev \<in> set post. is_raise ev \<or> P m0 ev" "\<forall>a. r = Inr a \<longrightarrow> R m0 a"
      by auto
    with m0 pre show ?thesis by (intro exI[of _ pre]) auto
  qed
qed


lemmas frozen_op_defs = cfg_print_def seed_generator_def new_loader_def
  new_logger_def new_callback_def trainer_test_def

lemma deepdta_frozen_reads:
  "yields (\<lambda>c. c = Some \<lparr>entries = m0, frozen = True\<rparr>) (frozen_ok m0) (deepdta_frozen env) (\<lambda>_. True)"
  unfolding deepdta_defs frozen_op_defs check_gpu_def trainer_fit_def new_trainer_def Let_def
  by (rule y_weaken, (rule y_seq y_rules | (simp (no_asm) add: frozen_ok_def cfg_write_def; fail)
       | (simp add: frozen_ok_def cfg_write_def; fail))+)

lemma dann_frozen_reads:
  "yields (\<lambda>c. c = Some \<lparr>entries = m0, frozen = True\<rparr>) (frozen_ok m0) (dann_frozen env) (\<lambda>_. True)"
  unfolding dann_defs frozen_op_defs check_gpu_def trainer_fit_def new_trainer_def Let_def
  by (rule y_weaken, (rule y_seq y_rules y_upper | (simp (no_asm) add: frozen_ok_def cfg_write_def; fail)
       | (simp add: frozen_ok_def cfg_write_def; fail))+)



section \<open>The subsets of a run\<close>

lemma y_load_split:
  assumes "\<And>k v. P (CfgRead k v)" and "\<And>n p. P (NewBindingDBDataset n split p)"
  shows "yields C P (load_split env split) (\<lambda>d. \<exists>n p. BindingDBDataset env n split p = Inr d)"
  unfolding load_split_def
  by (rule y_weaken, (rule y_rules assms)+) blast

lemma randperm_result:
  "(case randperm env n g of (p, g') \<Rightarrow> (Inr p, g')) = (Inr a, g'') \<Longrightarrow> a = fst (randperm env n g)"
  by (cases "randperm env n g") simp

lemma y_sample_indices:
  assumes "P (Randperm n)"
  shows "yields C P (sample_indices env n k) (\<lambda>idx. \<exists>g. idx = take k (fst (randperm env n g)))"
  unfolding sample_indices_def
  by (rule y_weaken, (rule y_rules assms)+) (blast dest: randperm_result)

lemma y_new_subset:
  assumes "P (NewSubset \<lparr>base = d, indices = idx\<rparr>)"
  shows "yields C P (new_subset d idx) (\<lambda>sub. sub = \<lparr>base = d, indices = idx\<rparr>)"
  unfolding new_subset_def Let_def
  by (rule y_weaken, (rule y_rules assms)+) blast

lemma y_new_loader:
  assumes "P (NewDataLoader \<lparr>dataset = d, shuffle = sh, batch_size = b\<rparr>)"
  shows "yields C P (new_loader env d sh b) (\<lambda>l. l = \<lparr>dataset = d, shuffle = sh, batch_size = b\<rparr>)"
  unfolding new_loader_def Let_def
  by (rule y_weaken, (rule y_rules assms)+) (simp add: checked_def split: option.splits)

lemma y_select:
  assumes "\<And>k v. P (CfgRead k v)" and "\<And>n s p. P (NewBindingDBDataset n s p)" and "\<And>n. P (Randperm n)"
    and "\<And>sub. sampled_split env sub \<Longrightarrow> P (NewSubset sub)"
  shows "yields C P (deepdta_select_datasets env)
     (\<lambda>(a, b, c). sampled env ''train'' train_subset_size a \<and>
                  sampled env ''valid'' valid_subset_size b \<and>
                  sampled env ''test'' test_subset_size c)"
  unfolding deepdta_select_datasets_def Let_def
  apply (rule y_weaken)
   apply (rule y_andthen y_load_split y_sample_indices y_new_subset y_ret assms(1,2,3)
       | (rule assms(4), force simp: sampled_split_def sampled_def))+
  apply (force simp: sampled_def)
  done

lemma y_loaders:
  assumes "\<And>k v. P (CfgRead k v)"
    and "\<And>l. dataset l = a \<or> dataset l = b \<or> dataset l = c \<Longrightarrow> P (NewDataLoader l)"
  shows "yields C P (deepdta_loaders env a b c)
     (\<lambda>(x, y, z). dataset x = a \<and> dataset y = b \<and> dataset z = c)"
  unfolding deepdta_loaders_def
  apply (rule y_weaken)
   apply (rule y_andthen y_cfg_get y_new_loader y_ret assms(1) | (rule assms(2), simp))+
  apply auto
  done

lemmas sampling_op_defs = check_colab_def cfg_defaults_def cfg_merge_from_file_def cfg_freeze_def
  cfg_print_def load_config_def prologue_def seed_generator_def check_gpu_def
  new_logger_def new_callback_def trainer_test_def new_trainer_def

lemma deepdta_sampling:
  "yields (\<lambda>_. True) (sampling_ok env) (deepdta_notebook env) (\<lambda>_. True)"
  unfolding deepdta_notebook_def deepdta_frozen_def deepdta_show_path_def deepdta_model_def
    deepdta_logger_def deepdta_trainer_def trainer_fit_def sampling_op_defs Let_def
  by (rule y_weaken, (rule y_seq y_select y_loaders y_rules
       | (simp (no_asm) add: sampling_ok_def; fail)
       | (force simp: sampling_ok_def sampled_split_def))+)

lemma sampled_facts:
  assumes "randperm_permutes env" and "sampled env split k sub"
  shows "distinct (indices sub)" and "\<forall>i \<in> set (indices sub). i < length (base sub)"
    and "length (indices sub) = min k (length (base sub))"
    and "\<exists>p. mset p = mset [0..<length (base sub)] \<and> indices sub = take k p"
proof -
  from assms(2) obtain g where i: "indices sub = take k (fst (randperm env (length (base sub)) g))"
    by (auto simp: sampled_def)
  let ?p = "fst (randperm env (length (base sub)) g)"
  from assms(1) have m: "mset ?p = mset [0..<length (base sub)]"
    by (simp add: randperm_permutes_def)
  then have d: "distinct ?p" by (metis distinct_upt mset_eq_imp_distinct_iff)
  from m have s: "set ?p = {0..<length (base sub)}" by (metis mset_eq_setD set_upt)
  from m have l: "length ?p = length (base sub)" by (metis length_upt mset_eq_length minus_nat.diff_0)
  from d i show "distinct (indices sub)" by simp
  from s i show "\<forall>i \<in> set (indices sub). i < length (base sub)"
    by (auto dest: in_set_takeD)
  from l i show "length (indices sub) = min k (length (base sub))" by simp
  from m i show "\<exists>p. mset p = mset [0..<length (base sub)] \<and> indices sub = take k p" by blast
qed

lemma subset_items:
  assumes "\<forall>i \<in> set (indices sub). i < length (base sub)"
  shows "map (subset_getitem sub) [0..<subset_len sub] = map (\<lambda>i. Inr (base sub ! i)) (indices sub)"
proof (rule nth_equalityI)
  show "length (map (subset_getitem sub) [0..<subset_len sub]) =
        length (map (\<lambda>i. Inr (base sub ! i)) (indices sub))"
    by (simp add: subset_len_def)
next
  fix i assume "i < length (map (subset_getitem sub) [0..<subset_len sub])"
  then have i: "i < length (indices sub)" by (simp add: subset_len_def)
  with assms have "indices sub ! i < length (base sub)" by simp
  with i show "map (subset_getitem sub) [0..<subset_len sub] ! i =
        map (\<lambda>i. Inr (base sub ! i)) (indices sub) ! i"
    by (simp add: subset_len_def subset_getitem_def)
qed

section \<open>Seeding and testing\<close>

lemma deepdta_seed_first: "walks seed_then_sample (\<lambda>_. False) 0 2 (deepdta_notebook env)"
  unfolding deepdta_defs op_defs Let_def
  by ((rule w_rules | (simp (no_asm) add: step_def seed_then_sample_def; fail))+)

lemma dann_seed_last: "walks data_then_seed (\<lambda>_. False) 0 2 (dann_notebook env)"
  unfolding dann_defs op_defs Let_def
  by ((rule w_rules w_upper | (simp (no_asm) add: step_def data_then_seed_def; fail))+)

lemma pos_second:
  assumes "pos st once 0 (pre @ ev # post) = Some j" and "st ev = Some 2"
  shows "(\<exists>ev' \<in> set pre. st ev' = Some 1) \<and> (\<forall>ev' \<in> set post. st ev' \<noteq> Some 1)"
proof -
  from assms(1) obtain a b where a: "pos st once 0 pre = Some a" and s: "step st once a ev = Some b"
    and b: "pos st once b post = Some j"
    by (auto simp: pos_append split: option.splits)
  from s assms(2) have "1 \<le> a" "b = 2" by (auto simp: step_def split: if_splits)
  with pos_passed[OF a, of 1] pos_behind[OF b, of 1] show ?thesis by auto
qed

lemma deepdta_seeds: "seeds (deepdta_notebook env)"
  unfolding deepdta_notebook_def deepdta_frozen_def
  apply (rule s_andthen_blind)
   apply (unfold op_defs Let_def)[1]
   apply (rule b_rules)+
  apply (rule s_andthen_blind)
   apply (unfold op_defs Let_def)[1]
   apply (rule b_rules)+
  apply (rule s_andthen_blind)
   apply (unfold cfg_get_def)[1]
   apply (rule b_rules)+
  apply (rule s_andthen)
  apply (rule s_seed_generator)
  done

lemma seeds_run:
  assumes "seeds m"
  shows "fst (m (init_state g)) = fst (m (init_state g')) \<and>
         trace (snd (m (init_state g))) = trace (snd (m (init_state g')))"
proof -
  have "same_but_rng (init_state g :: 'a nbstate) (init_state g')"
    by (simp add: same_but_rng_def init_state_def)
  with assms show ?thesis
    using seedsD[OF assms, of "init_state g" "init_state g'" "fst (m (init_state g))"
        "snd (m (init_state g))" "fst (m (init_state g'))" "snd (m (init_state g'))"]
    by (simp add: same_but_rng_def)
qed

lemma y_trainer_test:
  assumes "P (Test t l)"
  shows "yields C P (trainer_test env t fr l) (tested env)"
  unfolding trainer_test_def
  by (rule y_weaken, rule y_call_rng, rule assms) (unfold tested_def, blast)

lemma y_last:
  assumes "yields C P m R" and "\<And>a. yields C P (f a) R2"
  shows "yields C P (andthen m f) R2"
  by (rule y_weaken, rule y_andthen, rule assms(1), rule assms(2)) blast

lemma y_case_prod_last:
  "(\<And>a b. yields C P (f a b) R) \<Longrightarrow> yields C P (case p of (a, b) \<Rightarrow> f a b) R"
  by (cases p) simp

lemmas plain_op_defs = check_colab_def cfg_defaults_def cfg_merge_from_file_def cfg_freeze_def
  cfg_print_def load_config_def prologue_def seed_generator_def check_gpu_def new_loader_def
  new_trainer_def new_logger_def new_callback_def trainer_fit_def

lemma deepdta_tested: "yields (\<lambda>_. True) (\<lambda>_. True) (deepdta_notebook env) (tested env)"
  unfolding deepdta_defs plain_op_defs Let_def
  by ((rule y_last y_case_prod_last y_trainer_test y_rules | simp (no_asm))+)

lemma dann_tested: "yields (\<lambda>_. True) (\<lambda>_. True) (dann_notebook env) (tested env)"
  unfolding dann_defs plain_op_defs Let_def
  by ((rule y_last y_case_prod_last y_trainer_test y_rules y_upper | simp (no_asm))+)

lemmas demo_all_defs = demo_defs demo_cfg_def demo_train_def demo_valid_def demo_test_def
  demo_loader_def demo_trainer_def deepdta_demo_trace_def dann_defaults_def dann_yaml_def dann_cfg_def
  dann_demo_metrics_def dann_demo_env_def dann_demo_trainer_def dann_demo_trace_def no_config_env_def
  deepdta_demo_final_def dann_demo_final_def no_config_final_def

section \<open>The example runs\<close>

lemma deepdta_demo_run: "run_deepdta demo_env 0 = (Inr [(''test_loss'', 7)], deepdta_demo_final)"
  by (simp add: run_deepdta_def run_defs demo_all_defs)

lemma dann_demo_run: "run_dann dann_demo_env 0 = (Inr dann_demo_metrics, dann_demo_final)"
  by (simp add: run_dann_def run_defs demo_all_defs)


lemma demo_randperm: "randperm_permutes demo_env"
  by (simp add: randperm_permutes_def demo_env_def)


lemma demo_test_includes: "test_includes demo_env deepdta_test_metric"
  by (simp add: test_includes_def demo_env_def deepdta_test_metric_def)

lemma dann_demo_test_reports: "test_reports dann_demo_env dann_test_metrics"
  by (auto simp: test_reports_def dann_demo_env_def demo_env_def dann_test_metrics_def dann_demo_metrics_def)

section \<open>Events after the freeze\<close>

lemma setup_not_cfg: "setup_event ev \<Longrightarrow> \<not> cfg_event ev"
  by (cases ev) (simp_all add: setup_event_def cfg_event_def)

lemma frozen_ok_read:
  "is_raise ev \<or> frozen_ok m0 ev \<Longrightarrow> \<not> cfg_write ev \<and> (\<forall>k v. ev = CfgRead k v \<longrightarrow> map_of m0 k = Some v)"
  by (cases ev) (simp_all add: is_raise_def frozen_ok_def cfg_write_def)

lemma notebook_frozen_run:
  assumes y1: "\<And>m0. yields (\<lambda>c. c = Some \<lparr>entries = m0, frozen = True\<rparr>) (P m0) (deepdta_frozen env) (\<lambda>_. True)"
    and y2: "\<And>m0. yields (\<lambda>c. c = Some \<lparr>entries = m0, frozen = True\<rparr>) (P m0) (dann_frozen env) (\<lambda>_. True)"
    and run: "run_deepdta env g = (r, s') \<or> run_dann env g = (r, s')"
  shows "\<exists>pre. (\<forall>ev \<in> set pre. setup_event ev) \<and>
     ((\<exists>e. r = Inl e \<and>
           (trace s' = pre \<or> trace s' = pre @ [GetCfgDefaults, MergeFromFile cfg_path, Raise e])) \<or>
      (\<exists>m0 post. merge_from_file env (get_cfg_defaults env) cfg_path = Inr m0 \<and>
             cfg s' = Some \<lparr>entries = m0, frozen = True\<rparr> \<and>
             trace s' = pre @ [GetCfgDefaults, MergeFromFile cfg_path, Freeze] @ post \<and>
             (\<forall>ev \<in> set post. is_raise ev \<or> P m0 ev)))"
  using run
proof
  assume "run_deepdta env g = (r, s')"
  then have a: "andthen (prologue env deepdta_setup deepdta_imports) (\<lambda>_. deepdta_frozen env) (init_state g) = (r, s')"
    by (simp add: run_deepdta_def deepdta_notebook_def)
  from frozen_run[where P = P and R = "\<lambda>_ _. True", OF y1 a] show ?thesis by simp
next
  assume "run_dann env g = (r, s')"
  then have a: "andthen (prologue env dann_setup dann_imports) (\<lambda>_. dann_frozen env) (init_state g) = (r, s')"
    by (simp add: run_dann_def dann_notebook_def)
  from frozen_run[where P = P and R = "\<lambda>_ _. True", OF y2 a] show ?thesis by simp
qed


section \<open>The end of a run\<close>

lemma e_andthen: "(\<And>a. ends_in_test (f a)) \<Longrightarrow> ends_in_test (andthen m f)"
  unfolding ends_in_test_def andthen_def
  by (auto split: prod.splits sum.splits)

lemma e_case_prod: "(\<And>a b. ends_in_test (f a b)) \<Longrightarrow> ends_in_test (case p of (a, b) \<Rightarrow> f a b)"
  by (cases p) simp

lemma e_trainer_test: "ends_in_test (trainer_test env t r l)"
  unfolding ends_in_test_def trainer_test_def
  by (auto simp: nb_defs split: prod.splits sum.splits)

lemma deepdta_ends_in_test: "ends_in_test (deepdta_notebook env)"
  unfolding deepdta_notebook_def deepdta_frozen_def
  by (rule e_andthen e_case_prod e_trainer_test)+

lemma dann_ends_in_test: "ends_in_test (dann_notebook env)"
  unfolding dann_notebook_def dann_frozen_def
  by (rule e_andthen e_case_prod e_trainer_test)+

lemma ends_in_test_run:
  "ends_in_test m \<Longrightarrow> m s = (Inr a, s') \<Longrightarrow> \<exists>pre t l. trace s' = pre @ [Test t l]"
  unfolding ends_in_test_def by blast

section \<open>Seeding before sampling\<close>

lemma seed_then_sample_simps:
  "seed_then_sample (Randperm n) = Some 2" "(seed_then_sample ev = Some 1) = (\<exists>v. ev = SetSeed v)"
  by (cases ev; simp add: seed_then_sample_def)+

lemma data_then_seed_simps:
  "data_then_seed (SetSeed v) = Some 2" "(data_then_seed ev = Some 1) = is_dataset_construction ev"
  by (cases ev; simp add: data_then_seed_def is_dataset_construction_def)+

section \<open>The claims\<close>



text \<open>
  C2. In both notebooks the configuration is the defaults, merged with
  \<^verbatim>\<open>./configs/tutorial.yaml\<close>, then frozen: the trace of a run is some events that do not
  touch the configuration, then \<open>GetCfgDefaults\<close>, \<open>MergeFromFile\<close>, \<open>Freeze\<close>, then
  events none of which writes the configuration. Every read after the freeze returns
  the value the merge fixed, and the configuration the run ends with is the merged one,
  frozen. (A run that raises before the freeze has no later read.)
\<close>

theorem config_frozen:
  assumes "run_deepdta env g = (r, s') \<or> run_dann env g = (r, s')"
  shows "\<exists>pre. (\<forall>ev \<in> set pre. \<not> cfg_event ev) \<and>
     ((\<exists>e. r = Inl e \<and>
           (trace s' = pre \<or> trace s' = pre @ [GetCfgDefaults, MergeFromFile cfg_path, Raise e])) \<or>
      (\<exists>m0 post. merge_from_file env (get_cfg_defaults env) cfg_path = Inr m0 \<and>
             cfg s' = Some \<lparr>entries = m0, frozen = True\<rparr> \<and>
             trace s' = pre @ [GetCfgDefaults, MergeFromFile cfg_path, Freeze] @ post \<and>
             (\<forall>ev \<in> set post. \<not> cfg_write ev) \<and>
             (\<forall>k v. CfgRead k v \<in> set post \<longrightarrow> map_of m0 k = Some v)))"
proof -
  from notebook_frozen_run[of frozen_ok, OF deepdta_frozen_reads dann_frozen_reads assms]
  obtain pre where pre: "\<forall>ev \<in> set pre. setup_event ev"
    and c: "(\<exists>e. r = Inl e \<and>
           (trace s' = pre \<or> trace s' = pre @ [GetCfgDefaults, MergeFromFile cfg_path, Raise e])) \<or>
      (\<exists>m0 post. merge_from_file env (get_cfg_defaults env) cfg_path = Inr m0 \<and>
             cfg s' = Some \<lparr>entries = m0, frozen = True\<rparr> \<and>
             trace s' = pre @ [GetCfgDefaults, MergeFromFile cfg_path, Freeze] @ post \<and>
             (\<forall>ev \<in> set post. is_raise ev \<or> frozen_ok m0 ev))"
    by blast
  from pre have p: "\<forall>ev \<in> set pre. \<not> cfg_event ev" by (blast dest: setup_not_cfg)
  from c show ?thesis
  proof
    assume "\<exists>e. r = Inl e \<and>
           (trace s' = pre \<or> trace s' = pre @ [GetCfgDefaults, MergeFromFile cfg_path, Raise e])"
    with p show ?thesis by blast
  next
    assume "\<exists>m0 post. merge_from_file env (get_cfg_defaults env) cfg_path = Inr m0 \<and>
             cfg s' = Some \<lparr>entries = m0, frozen = True\<rparr> \<and>
             trace s' = pre @ [GetCfgDefaults, MergeFromFile cfg_path, Freeze] @ post \<and>
             (\<forall>ev \<in> set post. is_raise ev \<or> frozen_ok m0 ev)"
    then obtain m0 post where m: "merge_from_file env (get_cfg_defaults env) cfg_path = Inr m0"
      "cfg s' = Some \<lparr>entries = m0, frozen = True\<rparr>"
      "trace s' = pre @ [GetCfgDefaults, MergeFromFile cfg_path, Freeze] @ post"
      "\<forall>ev \<in> set post. is_raise ev \<or> frozen_ok m0 ev" by blast
    have q: "\<not> cfg_write ev \<and> (\<forall>k v. ev = CfgRead k v \<longrightarrow> map_of m0 k = Some v)"
      if "ev \<in> set post" for ev
      using m(4) that by (intro frozen_ok_read) blast
    then have "\<forall>ev \<in> set post. \<not> cfg_write ev"
      and "\<forall>k v. CfgRead k v \<in> set post \<longrightarrow> map_of m0 k = Some v"
      by blast+
    with m(1,2,3) p show ?thesis by blast
  qed
qed

text \<open>
  In the example run the merge replaces the default \<^verbatim>\<open>MAX_EPOCHS\<close> of 100 by 3, and 3 is
  what the run ends with.
\<close>

theorem config_frozen_witness:
  "run_deepdta demo_env 0 = (Inr [(''test_loss'', 7)], deepdta_demo_final) \<and>
   merge_from_file demo_env (get_cfg_defaults demo_env) cfg_path = Inr demo_cfg \<and>
   (\<exists>pre post. trace deepdta_demo_final =
        pre @ [GetCfgDefaults, MergeFromFile cfg_path, Freeze] @ post \<and>
      list_all (\<lambda>ev. \<not> cfg_event ev) pre \<and> list_all (\<lambda>ev. \<not> cfg_write ev) post) \<and>
   cfg deepdta_demo_final = Some \<lparr>entries = demo_cfg, frozen = True\<rparr> \<and>
   map_of demo_cfg (''SOLVER'', ''MAX_EPOCHS'') = Some (CInt 3)"
proof -
  have m: "merge_from_file demo_env (get_cfg_defaults demo_env) cfg_path = Inr demo_cfg"
    by (simp add: demo_env_def demo_defaults_def demo_yaml_def demo_merge_def cfg_path_def demo_cfg_def)
  from config_frozen[of demo_env 0 "Inr [(''test_loss'', 7)]" deepdta_demo_final] deepdta_demo_run m
  have "\<exists>pre post. trace deepdta_demo_final =
        pre @ [GetCfgDefaults, MergeFromFile cfg_path, Freeze] @ post \<and>
      list_all (\<lambda>ev. \<not> cfg_event ev) pre \<and> list_all (\<lambda>ev. \<not> cfg_write ev) post"
    by (simp add: list_all_iff) blast
  with m deepdta_demo_run show ?thesis
    by (simp add: deepdta_demo_final_def demo_cfg_def)
qed




text \<open>
  C4, as amended. Every configuration key the DeepDTA notebook reads is one of the
  recognised keys (dataset path and name, batch sizes, seed, minimum and maximum epoch
  counts, output directories). The DANN notebook reads recognised keys and four others:
  \<^verbatim>\<open>DATASET.WEIGHT_TYPE\<close>, \<^verbatim>\<open>DATASET.SIZE_TYPE\<close>, \<^verbatim>\<open>DATASET.VALID_SPLIT_RATIO\<close> and
  \<^verbatim>\<open>OUTPUT.PB_FRESH\<close>.
\<close>

theorem config_keys_read:
  assumes "CfgRead k v \<in> set (trace s')"
  shows "(run_deepdta env g = (r, s') \<longrightarrow> spec_recognized_key k) \<and>
         (run_dann env g = (r, s') \<longrightarrow> spec_recognized_key k \<or> k \<in> set dann_other_keys)"
proof (intro conjI impI)
  assume "run_deepdta env g = (r, s')"
  then have "deepdta_notebook env (init_state g) = (r, s')" by (simp add: run_deepdta_def)
  from yields_run[OF deepdta_reads this] assms show "spec_recognized_key k"
    by (auto simp: reads_only_def is_raise_def)
next
  assume "run_dann env g = (r, s')"
  then have "dann_notebook env (init_state g) = (r, s')" by (simp add: run_dann_def)
  from yields_run[OF dann_reads this] assms show "spec_recognized_key k \<or> k \<in> set dann_other_keys"
    by (auto simp: reads_only_def is_raise_def)
qed

text \<open>The example run of the DeepDTA notebook reads the seed, a recognised key.\<close>

theorem config_keys_read_witness:
  "CfgRead (''SOLVER'', ''SEED'') (CInt 2020) \<in> set (trace deepdta_demo_final) \<and>
   run_deepdta demo_env 0 = (Inr [(''test_loss'', 7)], deepdta_demo_final) \<and>
   spec_recognized_key (''SOLVER'', ''SEED'')"
proof -
  have m: "CfgRead (''SOLVER'', ''SEED'') (CInt 2020) \<in> set (trace deepdta_demo_final)"
    by (simp add: deepdta_demo_final_def deepdta_demo_trace_def)
  from config_keys_read[OF m, of demo_env 0 "Inr [(''test_loss'', 7)]"] deepdta_demo_run m
  show ?thesis by simp
qed

text \<open>
  C4 as stated fails: the example run of the DANN notebook reads \<^verbatim>\<open>OUTPUT.PB_FRESH\<close>, the
  refresh rate of the progress bar, and \<^verbatim>\<open>DATASET.WEIGHT_TYPE\<close>, neither of them a
  recognised key.
\<close>

theorem dann_reads_other_keys:
  "run_dann dann_demo_env 0 = (Inr dann_demo_metrics, dann_demo_final) \<and>
   CfgRead (''OUTPUT'', ''PB_FRESH'') (CInt 50) \<in> set (trace dann_demo_final) \<and>
   \<not> spec_recognized_key (''OUTPUT'', ''PB_FRESH'') \<and>
   CfgRead (''DATASET'', ''WEIGHT_TYPE'') (CStr ''natural'') \<in> set (trace dann_demo_final) \<and>
   \<not> spec_recognized_key (''DATASET'', ''WEIGHT_TYPE'')"
  using dann_demo_run
  by (simp add: dann_demo_final_def dann_demo_trace_def spec_recognized_key_def)



text \<open>
  C5. In the DeepDTA notebook the index list of the subset of each split is the first
  \<open>k\<close> entries of \<^verbatim>\<open>torch.randperm\<close> of the length of the split, a permutation of
  \<open>0, ..., len(split) - 1\<close>, with \<open>k\<close> = 8000 for train and 1000 for valid and for test, and
  the subset is the split restricted to those indices, in their order. These subsets
  are what is handed on: \<^verbatim>\<open>fit\<close> gets loaders of the train and the valid subset,
  \<^verbatim>\<open>test\<close> a loader of the test subset.
\<close>

theorem subset_sampling:
  assumes "run_deepdta env g = (r, s')" and "randperm_permutes env"
  shows "(\<forall>sub. NewSubset sub \<in> set (trace s') \<longrightarrow> sampled_split env sub) \<and>
         (\<forall>t m a b. Fit t m a b \<in> set (trace s') \<longrightarrow>
            (\<exists>l1 l2. a = Some l1 \<and> b = Some l2 \<and>
               sampled env ''train'' train_subset_size (dataset l1) \<and>
               sampled env ''valid'' valid_subset_size (dataset l2))) \<and>
         (\<forall>t l. Test t l \<in> set (trace s') \<longrightarrow>
            (\<exists>l3. l = Some l3 \<and> sampled env ''test'' test_subset_size (dataset l3))) \<and>
         (\<forall>split k sub. sampled env split k sub \<longrightarrow>
            (\<exists>p. mset p = mset [0..<length (base sub)] \<and> indices sub = take k p) \<and>
            map (subset_getitem sub) [0..<subset_len sub] =
              map (\<lambda>i. Inr (base sub ! i)) (indices sub)) \<and>
         train_subset_size = 8000 \<and> valid_subset_size = 1000 \<and> test_subset_size = 1000"
proof -
  from assms(1) have "deepdta_notebook env (init_state g) = (r, s')" by (simp add: run_deepdta_def)
  from yields_run[OF deepdta_sampling this]
  have ok: "\<And>ev. ev \<in> set (trace s') \<Longrightarrow> \<not> is_raise ev \<Longrightarrow> sampling_ok env ev" by blast
  have a: "\<forall>sub. NewSubset sub \<in> set (trace s') \<longrightarrow> sampled_split env sub"
    using ok[of "NewSubset _"] by (simp add: sampling_ok_def is_raise_def)
  have b: "\<forall>t m a b. Fit t m a b \<in> set (trace s') \<longrightarrow>
            (\<exists>l1 l2. a = Some l1 \<and> b = Some l2 \<and>
               sampled env ''train'' train_subset_size (dataset l1) \<and>
               sampled env ''valid'' valid_subset_size (dataset l2))"
    using ok[of "Fit _ _ _ _"] by (simp add: sampling_ok_def is_raise_def)
  have c: "\<forall>t l. Test t l \<in> set (trace s') \<longrightarrow>
            (\<exists>l3. l = Some l3 \<and> sampled env ''test'' test_subset_size (dataset l3))"
    using ok[of "Test _ _"] by (simp add: sampling_ok_def is_raise_def)
  have d: "\<forall>split k sub. sampled env split k sub \<longrightarrow>
            (\<exists>p. mset p = mset [0..<length (base sub)] \<and> indices sub = take k p) \<and>
            map (subset_getitem sub) [0..<subset_len sub] =
              map (\<lambda>i. Inr (base sub ! i)) (indices sub)"
    using sampled_facts(2,4)[OF assms(2)] subset_items by blast
  have e: "train_subset_size = 8000 \<and> valid_subset_size = 1000 \<and> test_subset_size = 1000"
    by (simp add: train_subset_size_def valid_subset_size_def test_subset_size_def)
  from a b c d e show ?thesis by (intro conjI) ((elim conjE)?, assumption)+
qed

text \<open>
  In the example run the test split has four elements; the test loader handed to
  \<^verbatim>\<open>trainer.test\<close> is over the subset with the indices 3, 2, 1, 0.
\<close>

theorem subset_sampling_witness:
  "run_deepdta demo_env 0 = (Inr [(''test_loss'', 7)], deepdta_demo_final) \<and>
   randperm_permutes demo_env \<and>
   Test demo_trainer (Some (demo_loader demo_test)) \<in> set (trace deepdta_demo_final) \<and>
   sampled demo_env ''test'' test_subset_size demo_test \<and>
   map (subset_getitem demo_test) [0..<subset_len demo_test] = [Inr 33, Inr 32, Inr 31, Inr 30]"
proof -
  note t = subset_sampling[OF deepdta_demo_run demo_randperm]
  have m: "Test demo_trainer (Some (demo_loader demo_test)) \<in> set (trace deepdta_demo_final)"
    by (simp add: deepdta_demo_final_def deepdta_demo_trace_def)
  from t m have "\<exists>l3. Some (demo_loader demo_test) = Some l3 \<and>
      sampled demo_env ''test'' test_subset_size (dataset l3)"
    by blast
  then have s: "sampled demo_env ''test'' test_subset_size demo_test"
    by (simp add: demo_loader_def)
  with t have "map (subset_getitem demo_test) [0..<subset_len demo_test] =
      map (\<lambda>i. Inr (base demo_test ! i)) (indices demo_test)"
    by blast
  then have "map (subset_getitem demo_test) [0..<subset_len demo_test] = [Inr 33, Inr 32, Inr 31, Inr 30]"
    by (simp add: demo_test_def)
  with m s deepdta_demo_run demo_randperm show ?thesis by simp
qed

text \<open>
  C9. In the DeepDTA notebook the index list of every subset built consists of pairwise
  distinct indices, each below the length of its split, and is as long as the smaller
  of the requested size (8000 for train, 1000 for valid and test) and the length of the
  split; so every element of the subset is an element of the split: no access
  \<open>subset_getitem sub i\<close> with \<open>i\<close> below the length of the subset is out of bounds.
\<close>

theorem sample_indices_in_bounds:
  assumes "run_deepdta env g = (r, s')" and "randperm_permutes env"
    and "NewSubset sub \<in> set (trace s')"
  shows "distinct (indices sub) \<and> (\<forall>i \<in> set (indices sub). i < length (base sub)) \<and>
         (sampled env ''train'' train_subset_size sub \<and>
            length (indices sub) = min 8000 (length (base sub)) \<or>
          sampled env ''valid'' valid_subset_size sub \<and>
            length (indices sub) = min 1000 (length (base sub)) \<or>
          sampled env ''test'' test_subset_size sub \<and>
            length (indices sub) = min 1000 (length (base sub))) \<and>
         (\<forall>i < subset_len sub. subset_getitem sub i = Inr (base sub ! (indices sub ! i)))"
proof -
  from assms(1) have "deepdta_notebook env (init_state g) = (r, s')" by (simp add: run_deepdta_def)
  from yields_run[OF deepdta_sampling this] assms(3) have "sampling_ok env (NewSubset sub)"
    by (auto simp: is_raise_def)
  then have s: "sampled_split env sub" by (simp add: sampling_ok_def)
  then obtain split k where k: "sampled env split k sub" by (auto simp: sampled_split_def)
  note f = sampled_facts[OF assms(2) k]
  have len: "sampled env ''train'' train_subset_size sub \<and>
            length (indices sub) = min 8000 (length (base sub)) \<or>
          sampled env ''valid'' valid_subset_size sub \<and>
            length (indices sub) = min 1000 (length (base sub)) \<or>
          sampled env ''test'' test_subset_size sub \<and>
            length (indices sub) = min 1000 (length (base sub))"
    using s sampled_facts(3)[OF assms(2)]
    unfolding sampled_split_def train_subset_size_def valid_subset_size_def test_subset_size_def
    by blast
  have get: "\<forall>i < subset_len sub. subset_getitem sub i = Inr (base sub ! (indices sub ! i))"
    using f(2) by (simp add: subset_len_def subset_getitem_def)
  from f(1) f(2) len get show ?thesis by (intro conjI) ((elim conjE)?, assumption)+
qed

text \<open>
  The train split of the example run has three elements, fewer than 8000: its subset has
  three distinct indices, and its first element is the last of the split.
\<close>

theorem sample_indices_in_bounds_witness:
  "run_deepdta demo_env 0 = (Inr [(''test_loss'', 7)], deepdta_demo_final) \<and>
   randperm_permutes demo_env \<and>
   NewSubset demo_train \<in> set (trace deepdta_demo_final) \<and>
   distinct (indices demo_train) \<and>
   length (indices demo_train) = 3 \<and>
   subset_getitem demo_train 0 = Inr 12"
proof -
  have m: "NewSubset demo_train \<in> set (trace deepdta_demo_final)"
    by (simp add: deepdta_demo_final_def deepdta_demo_trace_def)
  note t = sample_indices_in_bounds[OF deepdta_demo_run demo_randperm m]
  have "0 < subset_len demo_train" by (simp add: subset_len_def demo_train_def)
  with t have "subset_getitem demo_train 0 = Inr (base demo_train ! (indices demo_train ! 0))"
    by blast
  then have "subset_getitem demo_train 0 = Inr 12" by (simp add: demo_train_def)
  moreover have "length (indices demo_train) = 3" by (simp add: demo_train_def)
  ultimately show ?thesis using t m deepdta_demo_run demo_randperm by simp
qed

text \<open>
  C6. The value a run of either notebook ends with is what its call of
  \<^verbatim>\<open>trainer.test\<close>, the last call of the run, returns. For the DeepDTA notebook it
  includes the test loss, which is the root mean square error; for the DANN notebook its
  metrics are exactly \<^verbatim>\<open>test_domain_acc\<close>, \<^verbatim>\<open>test_source_acc\<close>, \<^verbatim>\<open>test_target_acc\<close> and
  \<^verbatim>\<open>test_loss\<close>, each once.
\<close>

theorem reported_metrics:
  "(run_deepdta env g = (Inr ms, s') \<and> test_includes env deepdta_test_metric \<longrightarrow>
      tested env ms \<and> (\<exists>pre t l. trace s' = pre @ [Test t l]) \<and> ''test_loss'' \<in> set (map fst ms)) \<and>
   (run_dann env g = (Inr ms, s') \<and> test_reports env dann_test_metrics \<longrightarrow>
      tested env ms \<and> (\<exists>pre t l. trace s' = pre @ [Test t l]) \<and> distinct (map fst ms) \<and>
      set (map fst ms) = {''test_domain_acc'', ''test_source_acc'', ''test_target_acc'', ''test_loss''})"
proof (rule conjI; rule impI)
  assume a: "run_deepdta env g = (Inr ms, s') \<and> test_includes env deepdta_test_metric"
  then have r: "deepdta_notebook env (init_state g) = (Inr ms, s')" by (simp add: run_deepdta_def)
  from yields_run[OF deepdta_tested r] have t: "tested env ms" by simp
  with a have "''test_loss'' \<in> set (map fst ms)"
    unfolding tested_def test_includes_def deepdta_test_metric_def by blast
  with t ends_in_test_run[OF deepdta_ends_in_test r]
  show "tested env ms \<and> (\<exists>pre t l. trace s' = pre @ [Test t l]) \<and> ''test_loss'' \<in> set (map fst ms)"
    by blast
next
  assume a: "run_dann env g = (Inr ms, s') \<and> test_reports env dann_test_metrics"
  then have r: "dann_notebook env (init_state g) = (Inr ms, s')" by (simp add: run_dann_def)
  from yields_run[OF dann_tested r] have t: "tested env ms" by simp
  with a have "distinct (map fst ms) \<and> set (map fst ms) = set dann_test_metrics"
    unfolding tested_def test_reports_def by blast
  then have "distinct (map fst ms)" and
    "set (map fst ms) = {''test_domain_acc'', ''test_source_acc'', ''test_target_acc'', ''test_loss''}"
    by (simp_all add: dann_test_metrics_def)
  with t ends_in_test_run[OF dann_ends_in_test r]
  show "tested env ms \<and> (\<exists>pre t l. trace s' = pre @ [Test t l]) \<and> distinct (map fst ms) \<and>
      set (map fst ms) = {''test_domain_acc'', ''test_source_acc'', ''test_target_acc'', ''test_loss''}"
    by blast
qed

text \<open>The example run of the DANN notebook ends with the four metrics.\<close>

theorem reported_metrics_witness:
  "run_dann dann_demo_env 0 = (Inr dann_demo_metrics, dann_demo_final) \<and>
   test_reports dann_demo_env dann_test_metrics \<and>
   tested dann_demo_env dann_demo_metrics \<and>
   map fst dann_demo_metrics = [''test_domain_acc'', ''test_source_acc'', ''test_target_acc'', ''test_loss''] \<and>
   set (map fst dann_demo_metrics) =
     {''test_domain_acc'', ''test_source_acc'', ''test_target_acc'', ''test_loss''}"
proof -
  from reported_metrics[of dann_demo_env 0 dann_demo_metrics dann_demo_final] dann_demo_run
    dann_demo_test_reports
  have "tested dann_demo_env dann_demo_metrics \<and>
        set (map fst dann_demo_metrics) =
          {''test_domain_acc'', ''test_source_acc'', ''test_target_acc'', ''test_loss''}"
    by blast
  moreover have "map fst dann_demo_metrics =
      [''test_domain_acc'', ''test_source_acc'', ''test_target_acc'', ''test_loss'']"
    by (simp add: dann_demo_metrics_def)
  ultimately show ?thesis using dann_demo_run dann_demo_test_reports by simp
qed



text \<open>
  C10. In the DeepDTA notebook \<^verbatim>\<open>set_seed(cfg.SOLVER.SEED)\<close> is executed before every call
  of \<^verbatim>\<open>torch.randperm\<close> and not after one, so two runs in the same environment, whatever
  the state of the random generator each starts in, have the same outcome and the same
  trace, and in particular build subsets with the same train, valid and test index
  lists. In the DANN notebook every call that constructs the datasets comes before
  \<^verbatim>\<open>set_seed\<close>, and none after it.
\<close>

theorem seeded_sampling:
  "fst (run_deepdta env g) = fst (run_deepdta env g') \<and>
   trace (snd (run_deepdta env g)) = trace (snd (run_deepdta env g')) \<and>
   sample_index_lists (trace (snd (run_deepdta env g))) =
     sample_index_lists (trace (snd (run_deepdta env g'))) \<and>
   (\<forall>pre n post. trace (snd (run_deepdta env g)) = pre @ Randperm n # post \<longrightarrow>
      (\<exists>v. SetSeed v \<in> set pre) \<and> (\<forall>v. SetSeed v \<notin> set post)) \<and>
   (\<forall>pre v post. trace (snd (run_dann env g)) = pre @ SetSeed v # post \<longrightarrow>
      (\<exists>ev \<in> set pre. is_dataset_construction ev) \<and>
      (\<forall>ev \<in> set post. \<not> is_dataset_construction ev))"
proof -
  from seeds_run[OF deepdta_seeds, of env g g']
  have a: "fst (run_deepdta env g) = fst (run_deepdta env g')"
    and b: "trace (snd (run_deepdta env g)) = trace (snd (run_deepdta env g'))"
    by (simp_all add: run_deepdta_def)
  from b have c: "sample_index_lists (trace (snd (run_deepdta env g))) =
     sample_index_lists (trace (snd (run_deepdta env g')))"
    by simp
  have d: "(\<exists>v. SetSeed v \<in> set pre) \<and> (\<forall>v. SetSeed v \<notin> set post)"
    if t: "trace (snd (run_deepdta env g)) = pre @ Randperm n # post" for pre n post
  proof -
    have "deepdta_notebook env (init_state g) = (fst (run_deepdta env g), snd (run_deepdta env g))"
      by (simp add: run_deepdta_def)
    from walks_run[OF deepdta_seed_first this] t
    obtain k where "pos seed_then_sample (\<lambda>_. False) 0 (pre @ Randperm n # post) = Some k"
      by auto
    from pos_second[OF this seed_then_sample_simps(1)] show ?thesis
      unfolding seed_then_sample_simps(2) by blast
  qed
  have e: "(\<exists>ev \<in> set pre. is_dataset_construction ev) \<and>
      (\<forall>ev \<in> set post. \<not> is_dataset_construction ev)"
    if t: "trace (snd (run_dann env g)) = pre @ SetSeed v # post" for pre v post
  proof -
    have "dann_notebook env (init_state g) = (fst (run_dann env g), snd (run_dann env g))"
      by (simp add: run_dann_def)
    from walks_run[OF dann_seed_last this] t
    obtain k where "pos data_then_seed (\<lambda>_. False) 0 (pre @ SetSeed v # post) = Some k"
      by auto
    from pos_second[OF this data_then_seed_simps(1)] show ?thesis
      unfolding data_then_seed_simps(2) by blast
  qed
  from a b c d e show ?thesis by blast
qed

text \<open>
  The example generator returns the reversed range in an even state and the range in an
  odd one. Seeded with 2020, the run started in state 5 builds the index lists of the
  run started in state 0, and the seed is set before the first permutation is drawn.
\<close>

theorem seeded_sampling_witness:
  "run_deepdta demo_env 0 = (Inr [(''test_loss'', 7)], deepdta_demo_final) \<and>
   sample_index_lists (trace (snd (run_deepdta demo_env 5))) = [[2, 1, 0], [0, 1], [3, 2, 1, 0]] \<and>
   fst (run_deepdta demo_env 5) = Inr [(''test_loss'', 7)] \<and>
   (\<exists>pre post. trace deepdta_demo_final = pre @ Randperm 3 # post \<and>
      SetSeed (CInt 2020) \<in> set pre \<and> list_all (\<lambda>ev. ev \<noteq> SetSeed (CInt 2020)) post)"
proof -
  note t = seeded_sampling[of demo_env 0 5]
  have l: "sample_index_lists (trace deepdta_demo_final) = [[2, 1, 0], [0, 1], [3, 2, 1, 0]]"
    by (simp add: sample_index_lists_def deepdta_demo_final_def deepdta_demo_trace_def
        map_filter_simps deepdta_imports_def demo_train_def demo_valid_def demo_test_def)
  from t l deepdta_demo_run
  have a: "sample_index_lists (trace (snd (run_deepdta demo_env 5))) = [[2, 1, 0], [0, 1], [3, 2, 1, 0]]"
    and b: "fst (run_deepdta demo_env 5) = Inr [(''test_loss'', 7)]"
    by simp_all
  have "Randperm 3 \<in> set (trace deepdta_demo_final)"
    by (simp add: deepdta_demo_final_def deepdta_demo_trace_def)
  then obtain pre post where p: "trace deepdta_demo_final = pre @ Randperm 3 # post"
    by (auto dest: split_list)
  with deepdta_demo_run have "trace (snd (run_deepdta demo_env 0)) = pre @ Randperm 3 # post"
    by simp
  with t have s: "(\<exists>v. SetSeed v \<in> set pre) \<and> (\<forall>v. SetSeed v \<notin> set post)"
    by blast
  have "\<And>v. SetSeed v \<in> set (trace deepdta_demo_final) \<Longrightarrow> v = CInt 2020"
    by (auto simp: deepdta_demo_final_def deepdta_demo_trace_def)
  with s p have "SetSeed (CInt 2020) \<in> set pre \<and> list_all (\<lambda>ev. ev \<noteq> SetSeed (CInt 2020)) post"
    by (auto simp: list_all_iff)
  with p a b deepdta_demo_run show ?thesis by blast
qed

end
